theory Spec2Isabelle
  imports Complex_Main
begin

section \<open>The browser's storage, as the services see it\<close>

text \<open>
  The services keep everything in the browser's \<^verbatim>\<open>localStorage\<close>, a map from string keys
  to texts, and read and write it through \<^verbatim>\<open>JSON.parse\<close> and \<^verbatim>\<open>JSON.stringify\<close>. Both belong
  to the platform, not to the repository, so a text is represented by what \<^verbatim>\<open>JSON.parse\<close>
  makes of it: \<open>Json_text v\<close> is the text \<^verbatim>\<open>JSON.stringify(v)\<close>, which parses back to \<open>v\<close>;
  \<open>Raw_text s\<close> is any other text \<open>s\<close>, which \<^verbatim>\<open>JSON.parse\<close> rejects with a SyntaxError
  (the empty text is one of them, and the only text that is falsy).

  \<^verbatim>\<open>localStorage.setItem\<close> throws when the browser refuses the write (the quota is
  exceeded, or storage is disabled). Which writes the browser refuses is not decided by
  the repository, so it is a component of the storage: \<open>accepts ls key txt\<close>.

  The type \<open>'v\<close> is the type of the JSON values a module stores: a list of ledger records
  for the expense service, a list of todo records for the todo service, an array or the
  settings object for the storage module.
\<close>

datatype error = QuotaExceededError | SyntaxError

datatype 'v json_text = Json_text 'v | Raw_text string

record 'v localStorage =
  items :: "string \<rightharpoonup> 'v json_text"
  accepts :: "string \<Rightarrow> 'v json_text \<Rightarrow> bool"

definition getItem :: "'v localStorage \<Rightarrow> string \<Rightarrow> 'v json_text option" where
  "getItem ls key = items ls key"

definition setItem ::
  "'v localStorage \<Rightarrow> string \<Rightarrow> 'v json_text \<Rightarrow> error + 'v localStorage" where
  "setItem ls key txt =
     (if accepts ls key txt then Inr (ls\<lparr>items := (items ls)(key \<mapsto> txt)\<rparr>)
      else Inl QuotaExceededError)"

text \<open>
  A browser never holds a text it would not take: the quota counts what is stored, so
  writing again the text that a key holds is never refused. A storage with this property
  is called consistent. \<open>setItem\<close> keeps a consistent storage consistent.
\<close>

definition consistent :: "'v localStorage \<Rightarrow> bool" where
  "consistent ls = (\<forall>key txt. getItem ls key = Some txt \<longrightarrow> accepts ls key txt)"

definition JSON_parse :: "'v json_text \<Rightarrow> error + 'v" where
  "JSON_parse txt = (case txt of Json_text v \<Rightarrow> Inr v | Raw_text s \<Rightarrow> Inl SyntaxError)"

definition JSON_stringify :: "'v \<Rightarrow> 'v json_text" where
  "JSON_stringify v = Json_text v"

text \<open>JavaScript's truthiness of what \<^verbatim>\<open>getItem\<close> returns: \<^verbatim>\<open>null\<close> and \<^verbatim>\<open>''\<close> are falsy.\<close>

definition truthy_text :: "'v json_text option \<Rightarrow> bool" where
  "truthy_text r = (case r of None \<Rightarrow> False | Some txt \<Rightarrow> txt \<noteq> Raw_text [])"

text \<open>Truthiness of an optional string argument: \<^verbatim>\<open>null\<close>, \<^verbatim>\<open>undefined\<close> and \<^verbatim>\<open>''\<close> are falsy.\<close>

definition truthy :: "string option \<Rightarrow> bool" where
  "truthy a = (case a of None \<Rightarrow> False | Some s \<Rightarrow> s \<noteq> [])"

text \<open>
  An optional string argument is supplied, with the value \<open>s\<close>, when it is the string \<open>s\<close>
  and truthy; an argument that is falsy counts as omitted.
\<close>

definition supplied :: "string option \<Rightarrow> string \<Rightarrow> bool" where
  "supplied a s = (a = Some s \<and> truthy a)"

text \<open>\<^verbatim>\<open>a || d\<close> on an optional string.\<close>

definition or_default :: "string option \<Rightarrow> string \<Rightarrow> string" where
  "or_default a d = (case a of None \<Rightarrow> d | Some s \<Rightarrow> if s = [] then d else s)"

text \<open>
  \<^verbatim>\<open>Array.prototype.findIndex\<close>: the first index whose element satisfies the predicate;
  \<open>None\<close> stands for the result \<^verbatim>\<open>-1\<close>.
\<close>

fun findIndex :: "('a \<Rightarrow> bool) \<Rightarrow> 'a list \<Rightarrow> nat option" where
  "findIndex P [] = None"
| "findIndex P (x # xs) = (if P x then Some 0 else map_option Suc (findIndex P xs))"

text \<open>
  The clock and the random generator, read when a record is created. JavaScript numbers
  are a type parameter \<open>'n\<close> with the operations the code uses on them, so that what is
  proved of sums and identifiers does not depend on how the arithmetic rounds.
\<close>

record 'n env =
  Date_now :: 'n
  Math_random :: 'n
  Date_toISOString :: string
  Date_getFullYear :: int
  Date_getMonth :: int

definition generateId :: "('n::plus) env \<Rightarrow> 'n" where
  "generateId e = Date_now e + Math_random e"

section \<open>The ledger repository (expenseService.js)\<close>

record 'n expense =
  e_id :: 'n
  e_amount :: 'n
  e_description :: string
  e_category :: string
  e_type :: string
  e_date :: string
  e_createdAt :: string

text \<open>
  An object with some of a ledger record's fields: the argument of \<^verbatim>\<open>updateExpense\<close>, and
  the own properties that \<^verbatim>\<open>...expenseData\<close> spreads over the new record.
\<close>

record 'n expense_patch =
  p_id :: "'n option"
  p_amount :: "'n option"
  p_description :: "string option"
  p_category :: "string option"
  p_type :: "string option"
  p_date :: "string option"
  p_createdAt :: "string option"

text \<open>\<^verbatim>\<open>{ ...e, ...p }\<close>: the fields of \<open>p\<close> win.\<close>

definition expense_spread :: "'n expense \<Rightarrow> 'n expense_patch \<Rightarrow> 'n expense" where
  "expense_spread e p =
     \<lparr>e_id = (case p_id p of Some v \<Rightarrow> v | None \<Rightarrow> e_id e),
      e_amount = (case p_amount p of Some v \<Rightarrow> v | None \<Rightarrow> e_amount e),
      e_description = (case p_description p of Some v \<Rightarrow> v | None \<Rightarrow> e_description e),
      e_category = (case p_category p of Some v \<Rightarrow> v | None \<Rightarrow> e_category e),
      e_type = (case p_type p of Some v \<Rightarrow> v | None \<Rightarrow> e_type e),
      e_date = (case p_date p of Some v \<Rightarrow> v | None \<Rightarrow> e_date e),
      e_createdAt = (case p_createdAt p of Some v \<Rightarrow> v | None \<Rightarrow> e_createdAt e)\<rparr>"

text \<open>
  The argument of \<^verbatim>\<open>addExpense\<close>: the pages pass the five data fields; an \<^verbatim>\<open>id\<close> or a
  \<^verbatim>\<open>createdAt\<close> of the caller's is optional.
\<close>

record 'n expense_data =
  d_amount :: 'n
  d_description :: string
  d_category :: string
  d_type :: string
  d_date :: string
  d_id :: "'n option"
  d_createdAt :: "string option"

definition expense_data_fields :: "'n expense_data \<Rightarrow> 'n expense_patch" where
  "expense_data_fields d =
     \<lparr>p_id = d_id d, p_amount = Some (d_amount d), p_description = Some (d_description d),
      p_category = Some (d_category d), p_type = Some (d_type d), p_date = Some (d_date d),
      p_createdAt = d_createdAt d\<rparr>"

text \<open>\<^verbatim>\<open>parseFloat\<close> of a number is that number.\<close>

definition parseFloat :: "'n \<Rightarrow> 'n" where
  "parseFloat x = x"

definition EXPENSES_STORAGE_KEY :: string where
  "EXPENSES_STORAGE_KEY = ''expenses''"

definition loadExpenses :: "'n expense list localStorage \<Rightarrow> 'n expense list" where
  "loadExpenses ls =
     (case getItem ls EXPENSES_STORAGE_KEY of
        None \<Rightarrow> []
      | Some expensesData \<Rightarrow>
          if truthy_text (Some expensesData)
          then (case JSON_parse expensesData of Inr v \<Rightarrow> v | Inl err \<Rightarrow> [])
          else [])"

definition saveExpenses ::
  "'n expense list localStorage \<Rightarrow> 'n expense list \<Rightarrow> 'n expense list localStorage \<times> bool" where
  "saveExpenses ls expenses =
     (case setItem ls EXPENSES_STORAGE_KEY (JSON_stringify expenses) of
        Inr ls' \<Rightarrow> (ls', True)
      | Inl err \<Rightarrow> (ls, False))"

definition getAllExpenses :: "'n expense list localStorage \<Rightarrow> 'n expense list" where
  "getAllExpenses ls = loadExpenses ls"

text \<open>
  A function that writes returns the storage it leaves with its result; \<open>None\<close> is
  \<^verbatim>\<open>null\<close>.
\<close>

definition addExpense ::
  "('n::plus) env \<Rightarrow> 'n expense list localStorage \<Rightarrow> 'n expense_data \<Rightarrow>
     'n expense list localStorage \<times> 'n expense option" where
  "addExpense now ls expenseData =
     (let expenses = loadExpenses ls;
          newExpense = expense_spread
            \<lparr>e_id = generateId now,
             e_amount = parseFloat (d_amount expenseData),
             e_description = d_description expenseData,
             e_category = d_category expenseData,
             e_type = d_type expenseData,
             e_date = d_date expenseData,
             e_createdAt = Date_toISOString now\<rparr>
            (expense_data_fields expenseData);
          (ls', success) = saveExpenses ls (expenses @ [newExpense])
      in (ls', if success then Some newExpense else None))"

definition updateExpense ::
  "'n expense list localStorage \<Rightarrow> 'n \<Rightarrow> 'n expense_patch \<Rightarrow>
     'n expense list localStorage \<times> 'n expense option" where
  "updateExpense ls ident updateData =
     (let expenses = loadExpenses ls in
      case findIndex (\<lambda>expense. e_id expense = ident) expenses of
        None \<Rightarrow> (ls, None)
      | Some index \<Rightarrow>
          (let expenses' = expenses[index := expense_spread (expenses ! index) updateData];
               (ls', success) = saveExpenses ls expenses'
           in (ls', if success then Some (expenses' ! index) else None)))"

definition deleteExpense ::
  "'n expense list localStorage \<Rightarrow> 'n \<Rightarrow> 'n expense list localStorage \<times> bool" where
  "deleteExpense ls ident =
     (let expenses = loadExpenses ls;
          filteredExpenses = filter (\<lambda>expense. e_id expense \<noteq> ident) expenses
      in if length filteredExpenses = length expenses then (ls, False)
         else saveExpenses ls filteredExpenses)"

section \<open>The todo repository (todoService.js)\<close>

record 'n todo =
  t_id :: 'n
  t_text :: string
  t_completed :: bool
  t_date :: string
  t_priority :: string
  t_category :: string
  t_createdAt :: string
  t_description :: "string option"
  t_time :: "string option"

record 'n todo_patch =
  q_id :: "'n option"
  q_text :: "string option"
  q_completed :: "bool option"
  q_date :: "string option"
  q_priority :: "string option"
  q_category :: "string option"
  q_createdAt :: "string option"
  q_description :: "string option"
  q_time :: "string option"

definition todo_spread :: "'n todo \<Rightarrow> 'n todo_patch \<Rightarrow> 'n todo" where
  "todo_spread t p =
     \<lparr>t_id = (case q_id p of Some v \<Rightarrow> v | None \<Rightarrow> t_id t),
      t_text = (case q_text p of Some v \<Rightarrow> v | None \<Rightarrow> t_text t),
      t_completed = (case q_completed p of Some v \<Rightarrow> v | None \<Rightarrow> t_completed t),
      t_date = (case q_date p of Some v \<Rightarrow> v | None \<Rightarrow> t_date t),
      t_priority = (case q_priority p of Some v \<Rightarrow> v | None \<Rightarrow> t_priority t),
      t_category = (case q_category p of Some v \<Rightarrow> v | None \<Rightarrow> t_category t),
      t_createdAt = (case q_createdAt p of Some v \<Rightarrow> v | None \<Rightarrow> t_createdAt t),
      t_description = (case q_description p of Some v \<Rightarrow> Some v | None \<Rightarrow> t_description t),
      t_time = (case q_time p of Some v \<Rightarrow> Some v | None \<Rightarrow> t_time t)\<rparr>"

text \<open>
  The argument of \<^verbatim>\<open>addTodo\<close>: the text and the date, and optionally any other field of a
  todo record.
\<close>

record 'n todo_data =
  td_text :: string
  td_date :: string
  td_priority :: "string option"
  td_category :: "string option"
  td_description :: "string option"
  td_time :: "string option"
  td_completed :: "bool option"
  td_id :: "'n option"
  td_createdAt :: "string option"

definition todo_data_fields :: "'n todo_data \<Rightarrow> 'n todo_patch" where
  "todo_data_fields d =
     \<lparr>q_id = td_id d, q_text = Some (td_text d), q_completed = td_completed d,
      q_date = Some (td_date d), q_priority = td_priority d, q_category = td_category d,
      q_createdAt = td_createdAt d, q_description = td_description d, q_time = td_time d\<rparr>"

definition TODOS_STORAGE_KEY :: string where
  "TODOS_STORAGE_KEY = ''todos''"

text \<open>The default category, the two characters of "other" in UTF-8.\<close>

definition category_other :: string where
  "category_other = [CHR 0xE5, CHR 0x85, CHR 0xB6, CHR 0xE4, CHR 0xBB, CHR 0x96]"

definition loadTodos :: "'n todo list localStorage \<Rightarrow> 'n todo list" where
  "loadTodos ls =
     (case getItem ls TODOS_STORAGE_KEY of
        None \<Rightarrow> []
      | Some todosData \<Rightarrow>
          if truthy_text (Some todosData)
          then (case JSON_parse todosData of Inr v \<Rightarrow> v | Inl err \<Rightarrow> [])
          else [])"

definition saveTodos ::
  "'n todo list localStorage \<Rightarrow> 'n todo list \<Rightarrow> 'n todo list localStorage \<times> bool" where
  "saveTodos ls todos =
     (case setItem ls TODOS_STORAGE_KEY (JSON_stringify todos) of
        Inr ls' \<Rightarrow> (ls', True)
      | Inl err \<Rightarrow> (ls, False))"

definition getAllTodos :: "'n todo list localStorage \<Rightarrow> 'n todo list" where
  "getAllTodos ls = loadTodos ls"

definition addTodo ::
  "('n::plus) env \<Rightarrow> 'n todo list localStorage \<Rightarrow> 'n todo_data \<Rightarrow>
     'n todo list localStorage \<times> 'n todo option" where
  "addTodo now ls todoData =
     (let todos = loadTodos ls;
          newTodo = todo_spread
            \<lparr>t_id = generateId now,
             t_text = td_text todoData,
             t_completed = False,
             t_date = td_date todoData,
             t_priority = or_default (td_priority todoData) ''medium'',
             t_category = or_default (td_category todoData) category_other,
             t_createdAt = Date_toISOString now,
             t_description = None,
             t_time = None\<rparr>
            (todo_data_fields todoData);
          (ls', success) = saveTodos ls (todos @ [newTodo])
      in (ls', if success then Some newTodo else None))"

definition updateTodo ::
  "'n todo list localStorage \<Rightarrow> 'n \<Rightarrow> 'n todo_patch \<Rightarrow>
     'n todo list localStorage \<times> 'n todo option" where
  "updateTodo ls ident updateData =
     (let todos = loadTodos ls in
      case findIndex (\<lambda>todo. t_id todo = ident) todos of
        None \<Rightarrow> (ls, None)
      | Some index \<Rightarrow>
          (let todos' = todos[index := todo_spread (todos ! index) updateData];
               (ls', success) = saveTodos ls todos'
           in (ls', if success then Some (todos' ! index) else None)))"

definition toggleTodo ::
  "'n todo list localStorage \<Rightarrow> 'n \<Rightarrow> 'n todo list localStorage \<times> 'n todo option" where
  "toggleTodo ls ident =
     (let todos = loadTodos ls in
      case findIndex (\<lambda>todo. t_id todo = ident) todos of
        None \<Rightarrow> (ls, None)
      | Some index \<Rightarrow>
          (let todos' = todos[index := (todos ! index)\<lparr>t_completed := \<not> t_completed (todos ! index)\<rparr>];
               (ls', success) = saveTodos ls todos'
           in (ls', if success then Some (todos' ! index) else None)))"

definition deleteTodo ::
  "'n todo list localStorage \<Rightarrow> 'n \<Rightarrow> 'n todo list localStorage \<times> bool" where
  "deleteTodo ls ident =
     (let todos = loadTodos ls;
          filteredTodos = filter (\<lambda>todo. t_id todo \<noteq> ident) todos
      in if length filteredTodos = length todos then (ls, False)
         else saveTodos ls filteredTodos)"

section \<open>The aggregation functions\<close>

subsection \<open>Strings and dates\<close>

text \<open>
  JavaScript compares two strings with \<^verbatim>\<open><\<close> and \<^verbatim>\<open>>\<close> code unit by code unit, a proper
  prefix first. Dates are ASCII, where the code units are the characters.
\<close>

fun js_less :: "string \<Rightarrow> string \<Rightarrow> bool" where
  "js_less [] [] = False"
| "js_less [] (y # ys) = True"
| "js_less (x # xs) [] = False"
| "js_less (x # xs) (y # ys) =
     (if (of_char x :: nat) < of_char y then True
      else if x = y then js_less xs ys else False)"

definition js_le :: "string \<Rightarrow> string \<Rightarrow> bool" where
  "js_le a b = (a = b \<or> js_less a b)"

text \<open>\<^verbatim>\<open>Number.prototype.toString\<close> on an integer, and \<^verbatim>\<open>String.prototype.padStart\<close>.\<close>

definition digit :: "nat \<Rightarrow> char" where
  "digit d = ''0123456789'' ! d"

fun digits :: "nat \<Rightarrow> string" where
  "digits n = (if n < 10 then [digit n] else digits (n div 10) @ [digit (n mod 10)])"

definition toString :: "int \<Rightarrow> string" where
  "toString i = (if i < 0 then CHR ''-'' # digits (nat (- i)) else digits (nat i))"

definition padStart :: "string \<Rightarrow> nat \<Rightarrow> char \<Rightarrow> string" where
  "padStart s n c = replicate (n - length s) c @ s"

text \<open>
  \<^verbatim>\<open>new Date(year, monthIndex, 0).getDate()\<close>, by the rules of the language: a year from 0
  to 99 stands for 1900 + year, a month index outside 0..11 carries into the year, and
  day 0 of a month is the last day of the month before it.
\<close>

definition isLeapYear :: "int \<Rightarrow> bool" where
  "isLeapYear y = (y mod 4 = 0 \<and> (y mod 100 \<noteq> 0 \<or> y mod 400 = 0))"

definition daysInMonth :: "int \<Rightarrow> int \<Rightarrow> int" where
  "daysInMonth y monthIndex =
     (if monthIndex = 1 then (if isLeapYear y then 29 else 28)
      else if monthIndex = 3 \<or> monthIndex = 5 \<or> monthIndex = 8 \<or> monthIndex = 10 then 30
      else 31)"

definition Date_day0_getDate :: "int \<Rightarrow> int \<Rightarrow> int" where
  "Date_day0_getDate year monthIndex =
     (let yr = (if 0 \<le> year \<and> year \<le> 99 then 1900 + year else year);
          ym = yr + monthIndex div 12;
          mn = monthIndex mod 12
      in if mn = 0 then daysInMonth (ym - 1) 11 else daysInMonth ym (mn - 1))"

subsection \<open>Ledger statistics (expenseService.js)\<close>

record 'n stats =
  totalIncome :: 'n
  totalExpense :: 'n
  balance :: 'n
  incomeCount :: nat
  expenseCount :: nat
  totalCount :: nat

definition getExpenseStats ::
  "('n::{zero,plus,minus}) expense list localStorage \<Rightarrow> string option \<Rightarrow> string option \<Rightarrow> 'n stats" where
  "getExpenseStats ls startDate endDate =
     (let expenses = loadExpenses ls;
          expenses =
            (if truthy startDate \<or> truthy endDate
             then filter (\<lambda>expense.
                    let expenseDate = e_date expense in
                    if (case startDate of None \<Rightarrow> False
                        | Some s \<Rightarrow> truthy startDate \<and> js_less expenseDate s) then False
                    else if (case endDate of None \<Rightarrow> False
                        | Some t \<Rightarrow> truthy endDate \<and> js_less t expenseDate) then False
                    else True) expenses
             else expenses);
          income = filter (\<lambda>e. e_type e = ''income'') expenses;
          expense = filter (\<lambda>e. e_type e = ''expense'') expenses;
          sumIncome = foldl (\<lambda>sum item. sum + e_amount item) 0 income;
          sumExpense = foldl (\<lambda>sum item. sum + e_amount item) 0 expense
      in \<lparr>totalIncome = sumIncome,
          totalExpense = sumExpense,
          balance = sumIncome - sumExpense,
          incomeCount = length income,
          expenseCount = length expense,
          totalCount = length expenses\<rparr>)"

text \<open>\<^verbatim>\<open>year || now.getFullYear()\<close>: an omitted argument and the number 0 are falsy.\<close>

definition or_current :: "int option \<Rightarrow> int \<Rightarrow> int" where
  "or_current a d = (case a of None \<Rightarrow> d | Some v \<Rightarrow> if v = 0 then d else v)"

definition getMonthlyStats ::
  "'n env \<Rightarrow> ('n::{zero,plus,minus}) expense list localStorage \<Rightarrow> int option \<Rightarrow> int option \<Rightarrow> 'n stats" where
  "getMonthlyStats now ls year month =
     (let targetYear = or_current year (Date_getFullYear now);
          targetMonth = or_current month (Date_getMonth now + 1);
          startDate = toString targetYear @ ''-'' @ padStart (toString targetMonth) 2 (CHR ''0'')
                        @ ''-01'';
          lastDay = Date_day0_getDate targetYear targetMonth;
          endDate = toString targetYear @ ''-'' @ padStart (toString targetMonth) 2 (CHR ''0'')
                        @ ''-'' @ padStart (toString lastDay) 2 (CHR ''0'')
      in getExpenseStats ls (Some startDate) (Some endDate))"

text \<open>
  The object \<^verbatim>\<open>categoryStats\<close> starts as \<^verbatim>\<open>{}\<close>, which has no entry of its own but inherits
  the properties of \<^verbatim>\<open>Object.prototype\<close>: the standard ones and the accessors of the
  language's annex for browsers. Each of them is a function or an object, so truthy. For
  a category with such a name, \<^verbatim>\<open>!categoryStats[category]\<close> is false from the start: the
  code creates no entry, and its two \<^verbatim>\<open>+=\<close> write the counters onto the inherited object,
  not into \<^verbatim>\<open>categoryStats\<close>. For any other name the lookup finds the entry created
  earlier or nothing.

  The model keeps the entries that the object has of its own, as a map from category
  names; the \<^verbatim>\<open>forEach\<close> loop is a fold over the records in order.
\<close>

definition Object_prototype_names :: "string list" where
  "Object_prototype_names =
     [''constructor'', ''hasOwnProperty'', ''isPrototypeOf'', ''propertyIsEnumerable'',
      ''toLocaleString'', ''toString'', ''valueOf'', ''__proto__'', ''__defineGetter__'',
      ''__defineSetter__'', ''__lookupGetter__'', ''__lookupSetter__'']"

record 'n category_stat =
  c_count :: nat
  c_total :: 'n
  c_type :: string

definition categoryStats_step ::
  "(string \<rightharpoonup> ('n::{zero,plus}) category_stat) \<Rightarrow> 'n expense \<Rightarrow> (string \<rightharpoonup> 'n category_stat)" where
  "categoryStats_step categoryStats expense =
     (if e_category expense \<in> set Object_prototype_names then categoryStats
      else
        (let entry = (case categoryStats (e_category expense) of
                        None \<Rightarrow> \<lparr>c_count = 0, c_total = 0, c_type = e_type expense\<rparr>
                      | Some s \<Rightarrow> s)
         in categoryStats(e_category expense \<mapsto>
              entry\<lparr>c_count := c_count entry + 1, c_total := c_total entry + e_amount expense\<rparr>)))"

definition getCategoryStats ::
  "('n::{zero,plus}) expense list localStorage \<Rightarrow> string option \<Rightarrow> (string \<rightharpoonup> 'n category_stat)" where
  "getCategoryStats ls type =
     (let expenses = loadExpenses ls;
          expenses = (case type of
                        None \<Rightarrow> expenses
                      | Some t \<Rightarrow> if truthy type then filter (\<lambda>expense. e_type expense = t) expenses
                                  else expenses)
      in foldl categoryStats_step Map.empty expenses)"

subsection \<open>Todo statistics (todoService.js)\<close>

record todo_stats =
  ts_total :: nat
  ts_completed :: nat
  ts_pending :: nat
  ts_high :: nat
  ts_medium :: nat
  ts_low :: nat

definition getTodoStats :: "'n todo list localStorage \<Rightarrow> string option \<Rightarrow> todo_stats" where
  "getTodoStats ls date =
     (let todos = loadTodos ls;
          todos = (case date of
                     None \<Rightarrow> todos
                   | Some dateStr \<Rightarrow> if truthy date then filter (\<lambda>todo. t_date todo = dateStr) todos
                                     else todos)
      in \<lparr>ts_total = length todos,
          ts_completed = length (filter (\<lambda>todo. t_completed todo) todos),
          ts_pending = length (filter (\<lambda>todo. \<not> t_completed todo) todos),
          ts_high = length (filter (\<lambda>todo. t_priority todo = ''high'') todos),
          ts_medium = length (filter (\<lambda>todo. t_priority todo = ''medium'') todos),
          ts_low = length (filter (\<lambda>todo. t_priority todo = ''low'') todos)\<rparr>)"

section \<open>The storage module (storage.js)\<close>

text \<open>
  This module stores arrays of records under four keys and one settings object under a
  fifth, so the JSON values it handles are arrays and that object.
\<close>

record settings =
  initialized :: bool
  version :: string
  currency :: string
  created_at :: string

datatype 'a stored = Array "'a list" | Object settings

definition STORAGE_KEYS_TODOS :: string where
  "STORAGE_KEYS_TODOS = ''finance_todos''"

definition STORAGE_KEYS_EXPENSES :: string where
  "STORAGE_KEYS_EXPENSES = ''finance_expenses''"

definition STORAGE_KEYS_BUDGETS :: string where
  "STORAGE_KEYS_BUDGETS = ''finance_budgets''"

definition STORAGE_KEYS_TEMPLATES :: string where
  "STORAGE_KEYS_TEMPLATES = ''finance_templates''"

definition STORAGE_KEYS_SETTINGS :: string where
  "STORAGE_KEYS_SETTINGS = ''finance_settings''"

definition getCurrentTimestamp :: "'n env \<Rightarrow> string" where
  "getCurrentTimestamp now = Date_toISOString now"

definition storage_get :: "'a stored localStorage \<Rightarrow> string \<Rightarrow> 'a stored" where
  "storage_get ls key =
     (let txt = (case getItem ls key of
                   None \<Rightarrow> JSON_stringify (Array [])
                 | Some t \<Rightarrow> if truthy_text (Some t) then t else JSON_stringify (Array []))
      in case JSON_parse txt of Inr v \<Rightarrow> v | Inl err \<Rightarrow> Array [])"

definition storage_set ::
  "'a stored localStorage \<Rightarrow> string \<Rightarrow> 'a stored \<Rightarrow> 'a stored localStorage \<times> bool" where
  "storage_set ls key data =
     (case setItem ls key (JSON_stringify data) of
        Inr ls' \<Rightarrow> (ls', True)
      | Inl err \<Rightarrow> (ls, False))"

text \<open>
  \<^verbatim>\<open>initializeData\<close> writes the settings outside any \<^verbatim>\<open>try\<close>, so a refused write leaves it
  with the exception (\<open>Inl\<close>); the four arrays are written through \<^verbatim>\<open>storage.set\<close>, whose
  result it ignores.
\<close>

definition initializeData :: "'n env \<Rightarrow> 'a stored localStorage \<Rightarrow> error + 'a stored localStorage" where
  "initializeData now ls =
     (if truthy_text (getItem ls STORAGE_KEYS_SETTINGS) then Inr ls
      else
        (let settings = \<lparr>initialized = True, version = ''2.0'', currency = ''TWD'',
                         created_at = getCurrentTimestamp now\<rparr>
         in case setItem ls STORAGE_KEYS_SETTINGS (JSON_stringify (Object settings)) of
              Inl err \<Rightarrow> Inl err
            | Inr ls1 \<Rightarrow>
                (let ls2 = fst (storage_set ls1 STORAGE_KEYS_TODOS (Array []));
                     ls3 = fst (storage_set ls2 STORAGE_KEYS_EXPENSES (Array []));
                     ls4 = fst (storage_set ls3 STORAGE_KEYS_BUDGETS (Array []));
                     ls5 = fst (storage_set ls4 STORAGE_KEYS_TEMPLATES (Array []))
                 in Inr ls5)))"

section \<open>What the specification says, in its own words\<close>

text \<open>
  The first and the last calendar day of a month, as \<^verbatim>\<open>YYYY-MM-DD\<close> dates: four digits of
  year, two of month, two of day; February has 29 days in a leap year (every fourth
  year, except the centuries not divisible by 400) and 28 otherwise.
\<close>

definition spec_leap :: "int \<Rightarrow> bool" where
  "spec_leap y = (if y mod 400 = 0 then True else if y mod 100 = 0 then False else y mod 4 = 0)"

definition spec_monthLength :: "int \<Rightarrow> int \<Rightarrow> int" where
  "spec_monthLength y m =
     (if m = 2 then (if spec_leap y then 29 else 28)
      else if m = 4 \<or> m = 6 \<or> m = 9 \<or> m = 11 then 30
      else 31)"

definition two_digits :: "int \<Rightarrow> string" where
  "two_digits k = [digit (nat (k div 10 mod 10)), digit (nat (k mod 10))]"

definition four_digits :: "int \<Rightarrow> string" where
  "four_digits k = two_digits (k div 100) @ two_digits k"

definition iso_date :: "int \<Rightarrow> int \<Rightarrow> int \<Rightarrow> string" where
  "iso_date y m d = four_digits y @ ''-'' @ two_digits m @ ''-'' @ two_digits d"

definition firstDayOf :: "int \<Rightarrow> int \<Rightarrow> string" where
  "firstDayOf y m = iso_date y m 1"

definition lastDayOf :: "int \<Rightarrow> int \<Rightarrow> string" where
  "lastDayOf y m = iso_date y m (spec_monthLength y m)"

text \<open>
  "Income adds, expense subtracts": the signed total of a sequence of ledger records.
\<close>

definition spec_signed_total :: "('n::{zero,plus,minus}) expense list \<Rightarrow> 'n" where
  "spec_signed_total xs =
     foldl (\<lambda>acc e. if e_type e = ''income'' then acc + e_amount e
                     else if e_type e = ''expense'' then acc - e_amount e
                     else acc) 0 xs"

section \<open>Sample data\<close>

text \<open>
  The ledger of the specification's scenario (a salary, a lunch and a dinner in June
  2025) and its three todos, in a storage that accepts every write and in a full one,
  which takes nothing but the text it holds.
\<close>

definition salary :: "int expense" where
  "salary = \<lparr>e_id = 1, e_amount = 50000, e_description = ''salary'', e_category = ''pay'',
     e_type = ''income'', e_date = ''2025-06-01'', e_createdAt = ''2025-06-01T08:00:00.000Z''\<rparr>"

definition lunch :: "int expense" where
  "lunch = \<lparr>e_id = 2, e_amount = 150, e_description = ''lunch'', e_category = ''food'',
     e_type = ''expense'', e_date = ''2025-06-01'', e_createdAt = ''2025-06-01T12:00:00.000Z''\<rparr>"

definition dinner :: "int expense" where
  "dinner = \<lparr>e_id = 3, e_amount = 800, e_description = ''dinner'', e_category = ''food'',
     e_type = ''expense'', e_date = ''2025-06-02'', e_createdAt = ''2025-06-02T19:00:00.000Z''\<rparr>"

definition ledger_storage :: "int expense list localStorage" where
  "ledger_storage =
     \<lparr>items = [EXPENSES_STORAGE_KEY \<mapsto> JSON_stringify [salary, lunch, dinner]],
      accepts = (\<lambda>key txt. True)\<rparr>"

definition full_ledger_storage :: "int expense list localStorage" where
  "full_ledger_storage =
     ledger_storage\<lparr>accepts := (\<lambda>key txt. txt = JSON_stringify [salary, lunch, dinner])\<rparr>"

definition amount_patch :: "int expense_patch" where
  "amount_patch = \<lparr>p_id = None, p_amount = Some 175, p_description = None, p_category = None,
     p_type = None, p_date = None, p_createdAt = None\<rparr>"

definition report :: "int todo" where
  "report = \<lparr>t_id = 1, t_text = ''report'', t_completed = False, t_date = ''2025-06-01'',
     t_priority = ''high'', t_category = ''work'', t_createdAt = ''2025-06-01T08:00:00.000Z'',
     t_description = None, t_time = None\<rparr>"

definition invoice :: "int todo" where
  "invoice = \<lparr>t_id = 2, t_text = ''invoice'', t_completed = True, t_date = ''2025-06-01'',
     t_priority = ''high'', t_category = ''work'', t_createdAt = ''2025-06-01T09:00:00.000Z'',
     t_description = None, t_time = Some ''10:30''\<rparr>"

definition groceries :: "int todo" where
  "groceries = \<lparr>t_id = 3, t_text = ''groceries'', t_completed = False, t_date = ''2025-06-02'',
     t_priority = ''low'', t_category = ''home'', t_createdAt = ''2025-06-02T09:00:00.000Z'',
     t_description = Some ''milk, rice'', t_time = None\<rparr>"

definition todo_storage :: "int todo list localStorage" where
  "todo_storage =
     \<lparr>items = [TODOS_STORAGE_KEY \<mapsto> JSON_stringify [report, invoice, groceries]],
      accepts = (\<lambda>key txt. True)\<rparr>"

definition full_todo_storage :: "int todo list localStorage" where
  "full_todo_storage =
     todo_storage\<lparr>accepts := (\<lambda>key txt. txt = JSON_stringify [report, invoice, groceries])\<rparr>"

definition text_patch :: "int todo_patch" where
  "text_patch = \<lparr>q_id = None, q_text = Some ''quarterly report'', q_completed = None,
     q_date = None, q_priority = None, q_category = None, q_createdAt = None,
     q_description = None, q_time = None\<rparr>"

definition coffee :: "int expense_data" where
  "coffee = \<lparr>d_amount = 60, d_description = ''coffee'', d_category = ''food'',
     d_type = ''expense'', d_date = ''2025-06-03'', d_id = None, d_createdAt = None\<rparr>"

definition coffee_with_id :: "int expense_data" where
  "coffee_with_id = coffee\<lparr>d_id := Some 2\<rparr>"

definition june_3 :: "int env" where
  "june_3 = \<lparr>Date_now = 1748944800000, Math_random = 0, Date_toISOString = ''2025-06-03T10:00:00.000Z'',
     Date_getFullYear = 2025, Date_getMonth = 5\<rparr>"

definition call_bank :: "int todo_data" where
  "call_bank = \<lparr>td_text = ''call the bank'', td_date = ''2025-06-03'', td_priority = None,
     td_category = None, td_description = Some [], td_time = Some [], td_completed = None,
     td_id = None, td_createdAt = None\<rparr>"

definition coffee_record :: "int expense" where
  "coffee_record = \<lparr>e_id = 1748944800000, e_amount = 60, e_description = ''coffee'',
     e_category = ''food'', e_type = ''expense'', e_date = ''2025-06-03'',
     e_createdAt = ''2025-06-03T10:00:00.000Z''\<rparr>"

definition call_bank_record :: "int todo" where
  "call_bank_record = \<lparr>t_id = 1748944800000, t_text = ''call the bank'', t_completed = False,
     t_date = ''2025-06-03'', t_priority = ''medium'', t_category = category_other,
     t_createdAt = ''2025-06-03T10:00:00.000Z'', t_description = Some [], t_time = Some []\<rparr>"

definition refund :: "int expense" where
  "refund = \<lparr>e_id = 4, e_amount = 100, e_description = ''refund'', e_category = ''food'',
     e_type = ''income'', e_date = ''2025-06-02'', e_createdAt = ''2025-06-02T20:00:00.000Z''\<rparr>"

definition mixed_storage :: "int expense list localStorage" where
  "mixed_storage =
     \<lparr>items = [EXPENSES_STORAGE_KEY \<mapsto> JSON_stringify [lunch, refund]],
      accepts = (\<lambda>key txt. True)\<rparr>"

definition fresh_storage :: "int expense stored localStorage" where
  "fresh_storage = \<lparr>items = Map.empty, accepts = (\<lambda>key txt. True)\<rparr>"

definition dead_storage :: "int expense stored localStorage" where
  "dead_storage = \<lparr>items = Map.empty, accepts = (\<lambda>key txt. False)\<rparr>"

definition default_settings :: settings where
  "default_settings = \<lparr>initialized = True, version = ''2.0'', currency = ''TWD'',
     created_at = ''2025-06-03T10:00:00.000Z''\<rparr>"

definition initialized_storage :: "int expense stored localStorage" where
  "initialized_storage =
     \<lparr>items = [STORAGE_KEYS_SETTINGS \<mapsto> JSON_stringify (Object default_settings),
               STORAGE_KEYS_TODOS \<mapsto> JSON_stringify (Array []),
               STORAGE_KEYS_EXPENSES \<mapsto> JSON_stringify (Array []),
               STORAGE_KEYS_BUDGETS \<mapsto> JSON_stringify (Array []),
               STORAGE_KEYS_TEMPLATES \<mapsto> JSON_stringify (Array [])],
      accepts = (\<lambda>key txt. True)\<rparr>"

section \<open>Lemmas on the library functions and on load and save\<close>

lemma findIndex_None_iff: "findIndex P xs = None \<longleftrightarrow> (\<forall>x \<in> set xs. \<not> P x)"
  by (induction xs) auto

lemma findIndex_Some_D:
  "findIndex P xs = Some i \<Longrightarrow> i < length xs \<and> P (xs ! i)"
  by (induction xs arbitrary: i) (auto split: if_splits)

lemma findIndex_update:
  "findIndex P xs = Some i \<Longrightarrow> P y \<Longrightarrow> findIndex P (xs[i := y]) = Some i"
  by (induction xs arbitrary: i) (auto split: if_splits)

lemma length_filter_neq_iff:
  "length (filter (\<lambda>x. f x \<noteq> a) xs) = length xs \<longleftrightarrow> a \<notin> f ` set xs"
proof -
  have "length (filter (\<lambda>x. f x \<noteq> a) xs) + length (filter (\<lambda>x. \<not> f x \<noteq> a) xs) = length xs"
    by (rule sum_length_filter_compl)
  then have "length (filter (\<lambda>x. f x \<noteq> a) xs) = length xs \<longleftrightarrow>
      filter (\<lambda>x. \<not> f x \<noteq> a) xs = []"
    by auto
  also have "\<dots> \<longleftrightarrow> a \<notin> f ` set xs"
    by (auto simp: filter_empty_conv)
  finally show ?thesis .
qed

lemma saveExpenses_accepts:
  "saveExpenses ls xs =
     (if accepts ls EXPENSES_STORAGE_KEY (JSON_stringify xs)
      then (ls\<lparr>items := (items ls)(EXPENSES_STORAGE_KEY \<mapsto> JSON_stringify xs)\<rparr>, True)
      else (ls, False))"
  by (simp add: saveExpenses_def setItem_def)

lemma loadExpenses_written:
  "loadExpenses (ls\<lparr>items := (items ls)(EXPENSES_STORAGE_KEY \<mapsto> JSON_stringify xs)\<rparr>) = xs"
  by (simp add: loadExpenses_def getItem_def JSON_stringify_def JSON_parse_def truthy_text_def)

lemma saveTodos_accepts:
  "saveTodos ls xs =
     (if accepts ls TODOS_STORAGE_KEY (JSON_stringify xs)
      then (ls\<lparr>items := (items ls)(TODOS_STORAGE_KEY \<mapsto> JSON_stringify xs)\<rparr>, True)
      else (ls, False))"
  by (simp add: saveTodos_def setItem_def)

lemma loadTodos_written:
  "loadTodos (ls\<lparr>items := (items ls)(TODOS_STORAGE_KEY \<mapsto> JSON_stringify xs)\<rparr>) = xs"
  by (simp add: loadTodos_def getItem_def JSON_stringify_def JSON_parse_def truthy_text_def)

lemma loadExpenses_ledger_storage: "loadExpenses ledger_storage = [salary, lunch, dinner]"
  by (simp add: ledger_storage_def loadExpenses_def getItem_def JSON_stringify_def
      JSON_parse_def truthy_text_def)

lemma loadExpenses_full_ledger_storage:
  "loadExpenses full_ledger_storage = [salary, lunch, dinner]"
  by (simp add: full_ledger_storage_def ledger_storage_def loadExpenses_def getItem_def
      JSON_stringify_def JSON_parse_def truthy_text_def)

lemma loadTodos_todo_storage: "loadTodos todo_storage = [report, invoice, groceries]"
  by (simp add: todo_storage_def loadTodos_def getItem_def JSON_stringify_def
      JSON_parse_def truthy_text_def)

lemma loadTodos_full_todo_storage: "loadTodos full_todo_storage = [report, invoice, groceries]"
  by (simp add: full_todo_storage_def todo_storage_def loadTodos_def getItem_def
      JSON_stringify_def JSON_parse_def truthy_text_def)

lemma sample_storages_accept:
  "accepts ledger_storage key txt"
  "accepts full_ledger_storage key txt = (txt = Json_text [salary, lunch, dinner])"
  "accepts mixed_storage key txt"
  "accepts todo_storage key' txt'"
  "accepts full_todo_storage key' txt' = (txt' = Json_text [report, invoice, groceries])"
  by (simp_all add: ledger_storage_def full_ledger_storage_def mixed_storage_def
      todo_storage_def full_todo_storage_def JSON_stringify_def)

section \<open>The repositories\<close>

text \<open>
  Claim C6. For every id that no record of the stored sequence has, and every patch,
  \<^verbatim>\<open>update(id, patch)\<close> returns null and \<^verbatim>\<open>delete(id)\<close> returns false, and both leave the
  storage, hence the sequence, as it was. This holds for the ledger and for the todos.
\<close>

theorem update_delete_absent_id:
  "(ident \<notin> e_id ` set (getAllExpenses ls) \<longrightarrow>
      updateExpense ls ident updateData = (ls, None) \<and> deleteExpense ls ident = (ls, False)) \<and>
   (ident' \<notin> t_id ` set (getAllTodos tls) \<longrightarrow>
      updateTodo tls ident' updateData' = (tls, None) \<and> deleteTodo tls ident' = (tls, False))"
proof (intro conjI impI)
  assume absent: "ident \<notin> e_id ` set (getAllExpenses ls)"
  then have "findIndex (\<lambda>expense. e_id expense = ident) (loadExpenses ls) = None"
    by (auto simp: findIndex_None_iff getAllExpenses_def)
  then show "updateExpense ls ident updateData = (ls, None)"
    by (simp add: updateExpense_def)
  from absent show "deleteExpense ls ident = (ls, False)"
    by (simp add: deleteExpense_def getAllExpenses_def length_filter_neq_iff)
next
  assume absent: "ident' \<notin> t_id ` set (getAllTodos tls)"
  then have "findIndex (\<lambda>todo. t_id todo = ident') (loadTodos tls) = None"
    by (auto simp: findIndex_None_iff getAllTodos_def)
  then show "updateTodo tls ident' updateData' = (tls, None)"
    by (simp add: updateTodo_def)
  from absent show "deleteTodo tls ident' = (tls, False)"
    by (simp add: deleteTodo_def getAllTodos_def length_filter_neq_iff)
qed

theorem update_delete_absent_id_witness:
  "9 \<notin> e_id ` set (getAllExpenses ledger_storage) \<and>
   updateExpense ledger_storage 9 amount_patch = (ledger_storage, None) \<and>
   deleteExpense ledger_storage 9 = (ledger_storage, False) \<and>
   9 \<notin> t_id ` set (getAllTodos todo_storage) \<and>
   updateTodo todo_storage 9 text_patch = (todo_storage, None) \<and>
   deleteTodo todo_storage 9 = (todo_storage, False)"
proof -
  have e: "9 \<notin> e_id ` set (getAllExpenses ledger_storage)"
    by (simp add: getAllExpenses_def loadExpenses_ledger_storage salary_def lunch_def dinner_def)
  have t: "9 \<notin> t_id ` set (getAllTodos todo_storage)"
    by (simp add: getAllTodos_def loadTodos_todo_storage report_def invoice_def groceries_def)
  from e t update_delete_absent_id [of 9 ledger_storage amount_patch 9 todo_storage text_patch]
  show ?thesis by simp
qed

lemma deleteExpense_eq:
  "deleteExpense ls ident =
     (if ident \<in> e_id ` set (loadExpenses ls)
      then saveExpenses ls (filter (\<lambda>expense. e_id expense \<noteq> ident) (loadExpenses ls))
      else (ls, False))"
  by (simp add: deleteExpense_def Let_def length_filter_neq_iff)

lemma deleteTodo_eq:
  "deleteTodo ls ident =
     (if ident \<in> t_id ` set (loadTodos ls)
      then saveTodos ls (filter (\<lambda>todo. t_id todo \<noteq> ident) (loadTodos ls))
      else (ls, False))"
  by (simp add: deleteTodo_def Let_def length_filter_neq_iff)

text \<open>
  Claim C2, as the code has it. \<^verbatim>\<open>delete(id)\<close> returns true exactly when a record of the
  sequence has that id and the browser accepts the write of the filtered sequence: the
  result is the outcome of the persist write, so a failed write makes it false. The
  stored sequence afterwards is the filtered one when it returned true, and the old one
  when it returned false.
\<close>

theorem delete_returns_write_outcome:
  "snd (deleteExpense ls ident) =
     (ident \<in> e_id ` set (getAllExpenses ls) \<and>
      accepts ls EXPENSES_STORAGE_KEY
        (JSON_stringify (filter (\<lambda>expense. e_id expense \<noteq> ident) (getAllExpenses ls)))) \<and>
   getAllExpenses (fst (deleteExpense ls ident)) =
     (if snd (deleteExpense ls ident)
      then filter (\<lambda>expense. e_id expense \<noteq> ident) (getAllExpenses ls)
      else getAllExpenses ls) \<and>
   snd (deleteTodo tls ident') =
     (ident' \<in> t_id ` set (getAllTodos tls) \<and>
      accepts tls TODOS_STORAGE_KEY
        (JSON_stringify (filter (\<lambda>todo. t_id todo \<noteq> ident') (getAllTodos tls)))) \<and>
   getAllTodos (fst (deleteTodo tls ident')) =
     (if snd (deleteTodo tls ident')
      then filter (\<lambda>todo. t_id todo \<noteq> ident') (getAllTodos tls)
      else getAllTodos tls)"
  by (simp add: deleteExpense_eq deleteTodo_eq getAllExpenses_def getAllTodos_def
      saveExpenses_accepts saveTodos_accepts loadExpenses_written loadTodos_written)

theorem delete_returns_write_outcome_witness:
  "snd (deleteExpense ledger_storage 2) \<and>
   getAllExpenses (fst (deleteExpense ledger_storage 2)) = [salary, dinner] \<and>
   \<not> snd (deleteExpense full_ledger_storage 2) \<and>
   getAllExpenses (fst (deleteExpense full_ledger_storage 2)) = [salary, lunch, dinner] \<and>
   snd (deleteTodo todo_storage 1) \<and>
   getAllTodos (fst (deleteTodo todo_storage 1)) = [invoice, groceries] \<and>
   \<not> snd (deleteTodo todo_storage 9)"
  using delete_returns_write_outcome [of ledger_storage 2 todo_storage 1]
    delete_returns_write_outcome [of full_ledger_storage 2 todo_storage 9]
  by (simp add: getAllExpenses_def getAllTodos_def loadExpenses_ledger_storage
      loadExpenses_full_ledger_storage loadTodos_todo_storage sample_storages_accept
      JSON_stringify_def salary_def lunch_def dinner_def report_def invoice_def groceries_def)

text \<open>
  Claim C2 as stated says that \<^verbatim>\<open>delete\<close> returns true for a matching id even if the
  persist write fails. In the full storage, which refuses the write of the filtered
  sequence, a ledger record has id 2 and \<^verbatim>\<open>deleteExpense(2)\<close> returns false.
\<close>

theorem delete_true_despite_failed_write_counterexample:
  "2 \<in> e_id ` set (getAllExpenses full_ledger_storage) \<and>
   \<not> accepts full_ledger_storage EXPENSES_STORAGE_KEY (JSON_stringify [salary, dinner]) \<and>
   deleteExpense full_ledger_storage 2 = (full_ledger_storage, False)"
  by (simp add: deleteExpense_eq getAllExpenses_def loadExpenses_full_ledger_storage
      saveExpenses_accepts sample_storages_accept JSON_stringify_def
      salary_def lunch_def dinner_def)

lemma addExpense_eq:
  "addExpense now ls d =
     (let r = expense_spread
            \<lparr>e_id = generateId now, e_amount = parseFloat (d_amount d),
             e_description = d_description d, e_category = d_category d, e_type = d_type d,
             e_date = d_date d, e_createdAt = Date_toISOString now\<rparr>
            (expense_data_fields d)
      in if accepts ls EXPENSES_STORAGE_KEY (JSON_stringify (loadExpenses ls @ [r]))
         then (ls\<lparr>items := (items ls)(EXPENSES_STORAGE_KEY \<mapsto> JSON_stringify (loadExpenses ls @ [r]))\<rparr>,
               Some r)
         else (ls, None))"
  by (simp add: addExpense_def Let_def saveExpenses_accepts)

lemma addTodo_eq:
  "addTodo now ls d =
     (let r = todo_spread
            \<lparr>t_id = generateId now, t_text = td_text d, t_completed = False, t_date = td_date d,
             t_priority = or_default (td_priority d) ''medium'',
             t_category = or_default (td_category d) category_other,
             t_createdAt = Date_toISOString now, t_description = None, t_time = None\<rparr>
            (todo_data_fields d)
      in if accepts ls TODOS_STORAGE_KEY (JSON_stringify (loadTodos ls @ [r]))
         then (ls\<lparr>items := (items ls)(TODOS_STORAGE_KEY \<mapsto> JSON_stringify (loadTodos ls @ [r]))\<rparr>,
               Some r)
         else (ls, None))"
  by (simp add: addTodo_def Let_def saveTodos_accepts)

text \<open>
  Claim C1, as the code has it. When the browser accepts the write, \<^verbatim>\<open>add(data)\<close> returns
  the new record, and \<^verbatim>\<open>getAll()\<close> afterwards is the sequence before with exactly that
  record appended; when the write is refused, it returns null and nothing changes. For
  data without an id of its own, the record's id is the generated value, the clock plus
  the random offset; no stored id is consulted.
\<close>

theorem add_appends_returned_record:
  "(\<exists>r. (d_id d = None \<longrightarrow> e_id r = generateId now) \<and>
        (if accepts ls EXPENSES_STORAGE_KEY (JSON_stringify (getAllExpenses ls @ [r]))
         then snd (addExpense now ls d) = Some r \<and>
              getAllExpenses (fst (addExpense now ls d)) = getAllExpenses ls @ [r]
         else addExpense now ls d = (ls, None))) \<and>
   (\<exists>t. (td_id d' = None \<longrightarrow> t_id t = generateId now') \<and>
        (if accepts tls TODOS_STORAGE_KEY (JSON_stringify (getAllTodos tls @ [t]))
         then snd (addTodo now' tls d') = Some t \<and>
              getAllTodos (fst (addTodo now' tls d')) = getAllTodos tls @ [t]
         else addTodo now' tls d' = (tls, None)))"
proof
  let ?r = "expense_spread
            \<lparr>e_id = generateId now, e_amount = parseFloat (d_amount d),
             e_description = d_description d, e_category = d_category d, e_type = d_type d,
             e_date = d_date d, e_createdAt = Date_toISOString now\<rparr>
            (expense_data_fields d)"
  have a: "d_id d = None \<longrightarrow> e_id ?r = generateId now"
    by (simp add: expense_spread_def expense_data_fields_def)
  have b: "if accepts ls EXPENSES_STORAGE_KEY (JSON_stringify (getAllExpenses ls @ [?r]))
         then snd (addExpense now ls d) = Some ?r \<and>
              getAllExpenses (fst (addExpense now ls d)) = getAllExpenses ls @ [?r]
         else addExpense now ls d = (ls, None)"
    by (simp add: addExpense_eq Let_def getAllExpenses_def loadExpenses_written)
  show "\<exists>r. (d_id d = None \<longrightarrow> e_id r = generateId now) \<and>
        (if accepts ls EXPENSES_STORAGE_KEY (JSON_stringify (getAllExpenses ls @ [r]))
         then snd (addExpense now ls d) = Some r \<and>
              getAllExpenses (fst (addExpense now ls d)) = getAllExpenses ls @ [r]
         else addExpense now ls d = (ls, None))"
    by (rule exI [of _ ?r]) (rule conjI [OF a b])
next
  let ?t = "todo_spread
            \<lparr>t_id = generateId now', t_text = td_text d', t_completed = False, t_date = td_date d',
             t_priority = or_default (td_priority d') ''medium'',
             t_category = or_default (td_category d') category_other,
             t_createdAt = Date_toISOString now', t_description = None, t_time = None\<rparr>
            (todo_data_fields d')"
  have a: "td_id d' = None \<longrightarrow> t_id ?t = generateId now'"
    by (simp add: todo_spread_def todo_data_fields_def)
  have b: "if accepts tls TODOS_STORAGE_KEY (JSON_stringify (getAllTodos tls @ [?t]))
         then snd (addTodo now' tls d') = Some ?t \<and>
              getAllTodos (fst (addTodo now' tls d')) = getAllTodos tls @ [?t]
         else addTodo now' tls d' = (tls, None)"
    by (simp add: addTodo_eq Let_def getAllTodos_def loadTodos_written)
  show "\<exists>t. (td_id d' = None \<longrightarrow> t_id t = generateId now') \<and>
        (if accepts tls TODOS_STORAGE_KEY (JSON_stringify (getAllTodos tls @ [t]))
         then snd (addTodo now' tls d') = Some t \<and>
              getAllTodos (fst (addTodo now' tls d')) = getAllTodos tls @ [t]
         else addTodo now' tls d' = (tls, None))"
    by (rule exI [of _ ?t]) (rule conjI [OF a b])
qed

theorem add_appends_returned_record_witness:
  "d_id coffee = None \<and>
   snd (addExpense june_3 ledger_storage coffee) = Some coffee_record \<and>
   e_id coffee_record = generateId june_3 \<and>
   getAllExpenses (fst (addExpense june_3 ledger_storage coffee)) =
     [salary, lunch, dinner, coffee_record] \<and>
   addExpense june_3 full_ledger_storage coffee = (full_ledger_storage, None) \<and>
   td_id call_bank = None \<and>
   snd (addTodo june_3 todo_storage call_bank) = Some call_bank_record \<and>
   t_id call_bank_record = generateId june_3 \<and>
   getAllTodos (fst (addTodo june_3 todo_storage call_bank)) =
     [report, invoice, groceries, call_bank_record] \<and>
   addTodo june_3 full_todo_storage call_bank = (full_todo_storage, None)"
  using add_appends_returned_record [where d = coffee and now = june_3 and ls = ledger_storage
      and d' = call_bank and now' = june_3 and tls = todo_storage]
  by (simp add: addExpense_eq addTodo_eq Let_def getAllExpenses_def getAllTodos_def
      loadExpenses_ledger_storage loadExpenses_full_ledger_storage loadTodos_todo_storage
      loadTodos_full_todo_storage loadExpenses_written loadTodos_written
      expense_spread_def expense_data_fields_def todo_spread_def todo_data_fields_def
      parseFloat_def or_default_def generateId_def sample_storages_accept JSON_stringify_def
      coffee_def coffee_record_def call_bank_def call_bank_record_def june_3_def)

text \<open>
  Claim C1 as stated promises, for every data, a returned record with an id no stored
  record has, and one record more afterwards. In the full storage, which refuses the
  longer text, \<^verbatim>\<open>addExpense\<close> returns null and stores nothing; and data that carries the id
  2 gets a record with the id 2, which a stored record already has.
\<close>

theorem add_fresh_id_counterexample:
  "addExpense june_3 full_ledger_storage coffee = (full_ledger_storage, None) \<and>
   map_option e_id (snd (addExpense june_3 ledger_storage coffee_with_id)) = Some 2 \<and>
   2 \<in> e_id ` set (getAllExpenses ledger_storage)"
  by (simp add: addExpense_eq Let_def getAllExpenses_def loadExpenses_ledger_storage
      loadExpenses_full_ledger_storage expense_spread_def expense_data_fields_def
      sample_storages_accept JSON_stringify_def
      coffee_with_id_def coffee_def salary_def lunch_def dinner_def)

lemma setItem_consistent:
  "consistent ls \<Longrightarrow> setItem ls key txt = Inr ls' \<Longrightarrow> consistent ls'"
  by (auto simp: consistent_def setItem_def getItem_def split: if_splits)

lemma save_consistent:
  "consistent els \<Longrightarrow> consistent (fst (saveExpenses els xs))"
  "consistent tls \<Longrightarrow> consistent (fst (saveTodos tls ts))"
  "consistent ls \<Longrightarrow> consistent (fst (storage_set ls key S))"
  by (auto simp: saveExpenses_def saveTodos_def storage_set_def
      split: sum.splits dest: setItem_consistent)

lemma sample_storages_consistent:
  "consistent ledger_storage" "consistent full_ledger_storage" "consistent mixed_storage"
  "consistent todo_storage" "consistent full_todo_storage"
  "consistent fresh_storage" "consistent dead_storage" "consistent initialized_storage"
  by (simp_all add: consistent_def getItem_def ledger_storage_def full_ledger_storage_def
      mixed_storage_def todo_storage_def full_todo_storage_def fresh_storage_def
      dead_storage_def initialized_storage_def)

lemma toggleTodo_eq:
  "toggleTodo ls ident =
     (case findIndex (\<lambda>todo. t_id todo = ident) (loadTodos ls) of
        None \<Rightarrow> (ls, None)
      | Some index \<Rightarrow>
          if accepts ls TODOS_STORAGE_KEY (JSON_stringify ((loadTodos ls)[index :=
                 (loadTodos ls ! index)\<lparr>t_completed := \<not> t_completed (loadTodos ls ! index)\<rparr>]))
          then (ls\<lparr>items := (items ls)(TODOS_STORAGE_KEY \<mapsto> JSON_stringify ((loadTodos ls)[index :=
                 (loadTodos ls ! index)\<lparr>t_completed := \<not> t_completed (loadTodos ls ! index)\<rparr>]))\<rparr>,
                Some ((loadTodos ls)[index :=
                 (loadTodos ls ! index)\<lparr>t_completed := \<not> t_completed (loadTodos ls ! index)\<rparr>] ! index))
          else (ls, None))"
  by (simp add: toggleTodo_def Let_def saveTodos_accepts split: option.split)

lemma loadTodos_nonempty_stored:
  "loadTodos ls \<noteq> [] \<Longrightarrow> getItem ls TODOS_STORAGE_KEY = Some (JSON_stringify (loadTodos ls))"
  by (auto simp: loadTodos_def JSON_parse_def JSON_stringify_def
      split: option.splits if_splits json_text.splits)

text \<open>
  Claim C7. For every todo id that a record of the sequence has, two calls of
  \<^verbatim>\<open>toggleCompletion(id)\<close> leave the stored sequence, and so the record's completion flag,
  as they were before the pair. The storage is any consistent one; the write of the
  flipped record may be refused, and then neither call changes anything.
\<close>

theorem toggle_twice_restores:
  assumes present: "ident \<in> t_id ` set (getAllTodos ls)"
    and fits: "consistent ls"
  shows "getAllTodos (fst (toggleTodo (fst (toggleTodo ls ident)) ident)) = getAllTodos ls"
proof -
  let ?todos = "loadTodos ls"
  let ?P = "\<lambda>todo. t_id todo = ident"
  from present obtain i where i: "findIndex ?P ?todos = Some i"
    by (cases "findIndex ?P ?todos") (auto simp: findIndex_None_iff getAllTodos_def)
  then have len: "i < length ?todos" and same_id: "t_id (?todos ! i) = ident"
    using findIndex_Some_D [of ?P ?todos i] by simp_all
  let ?flipped = "(?todos ! i)\<lparr>t_completed := \<not> t_completed (?todos ! i)\<rparr>"
  let ?todos' = "?todos[i := ?flipped]"
  show ?thesis
  proof (cases "accepts ls TODOS_STORAGE_KEY (JSON_stringify ?todos')")
    case False
    with i have "toggleTodo ls ident = (ls, None)"
      by (simp add: toggleTodo_eq)
    then show ?thesis by simp
  next
    case True
    let ?ls1 = "ls\<lparr>items := (items ls)(TODOS_STORAGE_KEY \<mapsto> JSON_stringify ?todos')\<rparr>"
    from True i have first: "fst (toggleTodo ls ident) = ?ls1"
      by (simp add: toggleTodo_eq)
    have loaded: "loadTodos ?ls1 = ?todos'"
      by (rule loadTodos_written)
    from i same_id have i': "findIndex ?P ?todos' = Some i"
      by (intro findIndex_update) simp_all
    from len have undone: "?todos'[i := (?todos' ! i)\<lparr>t_completed := \<not> t_completed (?todos' ! i)\<rparr>] = ?todos"
      by simp
    from len have "?todos \<noteq> []" by auto
    then have "getItem ls TODOS_STORAGE_KEY = Some (JSON_stringify ?todos)"
      by (rule loadTodos_nonempty_stored)
    with fits have "accepts ls TODOS_STORAGE_KEY (JSON_stringify ?todos)"
      by (simp add: consistent_def)
    then have "accepts ?ls1 TODOS_STORAGE_KEY (JSON_stringify ?todos)"
      by simp
    with i' loaded undone have "fst (toggleTodo ?ls1 ident) =
        ?ls1\<lparr>items := (items ?ls1)(TODOS_STORAGE_KEY \<mapsto> JSON_stringify ?todos)\<rparr>"
      by (simp add: toggleTodo_eq)
    then have "loadTodos (fst (toggleTodo ?ls1 ident)) = ?todos"
      by (simp only: loadTodos_written)
    with first show ?thesis
      by (simp add: getAllTodos_def)
  qed
qed

theorem toggle_twice_restores_witness:
  "1 \<in> t_id ` set (getAllTodos todo_storage) \<and>
   consistent todo_storage \<and>
   map t_completed (getAllTodos todo_storage) = [False, True, False] \<and>
   map t_completed (getAllTodos (fst (toggleTodo todo_storage 1))) = [True, True, False] \<and>
   getAllTodos (fst (toggleTodo (fst (toggleTodo todo_storage 1)) 1)) = getAllTodos todo_storage"
proof -
  have p: "1 \<in> t_id ` set (getAllTodos todo_storage)"
    by (simp add: getAllTodos_def loadTodos_todo_storage report_def)
  have f: "consistent todo_storage"
    by (simp add: consistent_def todo_storage_def)
  have "map t_completed (getAllTodos (fst (toggleTodo todo_storage 1))) = [True, True, False]"
    by (simp add: toggleTodo_eq getAllTodos_def loadTodos_todo_storage loadTodos_written
        report_def invoice_def groceries_def)
      (simp add: todo_storage_def)
  moreover have "map t_completed (getAllTodos todo_storage) = [False, True, False]"
    by (simp add: getAllTodos_def loadTodos_todo_storage report_def invoice_def groceries_def)
  ultimately show ?thesis
    using p f toggle_twice_restores [OF p f] by simp
qed

section \<open>The aggregations\<close>

lemma js_less_irrefl: "\<not> js_less a a"
  by (induction a) simp_all

lemma js_less_asym: "js_less a b \<Longrightarrow> \<not> js_less b a"
  by (induction a b rule: js_less.induct) (auto split: if_splits)

lemma js_less_total: "js_less a b \<or> a = b \<or> js_less b a"
proof (induction a b rule: js_less.induct)
  case (4 x xs y ys)
  have "(of_char x :: nat) < of_char y \<or> x = y \<or> (of_char y :: nat) < of_char x"
    by (metis linorder_neqE_nat of_char_eq_iff)
  with 4 show ?case by auto
qed simp_all

lemma not_js_less_iff: "\<not> js_less d s \<longleftrightarrow> js_le s d"
  using js_less_total [of s d] js_less_asym [of s d] js_less_irrefl [of d]
  by (auto simp: js_le_def)

lemma js_less_iff_not_le: "js_less d s \<longleftrightarrow> \<not> js_le s d"
  using not_js_less_iff [of d s] by blast

lemma js_le_Nil: "js_le [] d"
  by (cases d) (simp_all add: js_le_def)

lemma foldl_add_sum_list:
  fixes a :: "'n::monoid_add"
  shows "foldl (\<lambda>sum item. sum + f item) a xs = a + sum_list (map f xs)"
  by (induction xs arbitrary: a) (simp_all add: add.assoc)

lemma in_range_filter:
  "(if (case startDate of None \<Rightarrow> False | Some s \<Rightarrow> truthy startDate \<and> js_less d s) then False
          else if (case endDate of None \<Rightarrow> False | Some t \<Rightarrow> truthy endDate \<and> js_less t d) then False
          else True) \<longleftrightarrow>
         ((\<forall>s. supplied startDate s \<longrightarrow> js_le s d) \<and> (\<forall>t. supplied endDate t \<longrightarrow> js_le d t))"
  by (cases startDate; cases endDate)
    (auto simp: supplied_def truthy_def js_less_iff_not_le)

text \<open>
  Claim C5. \<^verbatim>\<open>stats(startDate?, endDate?)\<close> keeps the records whose date is not below a
  supplied start and not above a supplied end, each bound included (\<open>js_le\<close> holds of
  equal strings), and an omitted bound constrains nothing; of the kept records,
  \<open>totalIncome\<close> and \<open>totalExpense\<close> are the sums of the amounts of those of type income
  and of type expense, \<open>incomeCount\<close> and \<open>expenseCount\<close> their numbers, \<open>totalCount\<close> the
  number of all kept records, and \<open>balance = totalIncome - totalExpense\<close>. A sum is the
  code's own: the amounts added one by one, in the order of the sequence, starting from
  0. No law of addition is assumed, so the statement holds of the rounded arithmetic of
  JavaScript numbers as of exact numbers.
\<close>

theorem stats_filter_sums_counts:
  fixes ls :: "('n::{zero,plus,minus}) expense list localStorage"
  shows "let kept = filter (\<lambda>expense.
                      (\<forall>s. supplied startDate s \<longrightarrow> js_le s (e_date expense)) \<and>
                      (\<forall>t. supplied endDate t \<longrightarrow> js_le (e_date expense) t)) (getAllExpenses ls);
             income = filter (\<lambda>e. e_type e = ''income'') kept;
             expense = filter (\<lambda>e. e_type e = ''expense'') kept;
             r = getExpenseStats ls startDate endDate
         in totalIncome r = foldl (\<lambda>sum item. sum + e_amount item) 0 income \<and>
            totalExpense r = foldl (\<lambda>sum item. sum + e_amount item) 0 expense \<and>
            balance r = totalIncome r - totalExpense r \<and>
            incomeCount r = length income \<and>
            expenseCount r = length expense \<and>
            totalCount r = length kept"
proof -
  let ?P = "\<lambda>expense. (\<forall>s. supplied startDate s \<longrightarrow> js_le s (e_date expense)) \<and>
                      (\<forall>t. supplied endDate t \<longrightarrow> js_le (e_date expense) t)"
  let ?Q = "\<lambda>expense. if (case startDate of None \<Rightarrow> False
                        | Some s \<Rightarrow> truthy startDate \<and> js_less (e_date expense) s) then False
                    else if (case endDate of None \<Rightarrow> False
                        | Some t \<Rightarrow> truthy endDate \<and> js_less t (e_date expense)) then False
                    else True"
  have PQ: "?Q = ?P"
    using in_range_filter [of startDate _ endDate] by (intro ext) blast
  have none: "\<not> (truthy startDate \<or> truthy endDate) \<Longrightarrow> filter ?P xs = xs" for xs :: "'n expense list"
    by (cases startDate; cases endDate) (auto simp: supplied_def truthy_def)
  have kept: "(if truthy startDate \<or> truthy endDate then filter ?Q (loadExpenses ls) else loadExpenses ls)
      = filter ?P (loadExpenses ls)"
    using none [of "loadExpenses ls"] by (simp only: PQ split: if_split) simp
  show ?thesis
    unfolding getExpenseStats_def Let_def kept getAllExpenses_def
    by simp
qed

theorem stats_filter_sums_counts_witness:
  "supplied (Some ''2025-06-01'') ''2025-06-01'' \<and>
   getExpenseStats ledger_storage (Some ''2025-06-01'') (Some ''2025-06-01'') =
     \<lparr>totalIncome = 50000, totalExpense = 150, balance = 49850,
      incomeCount = 1, expenseCount = 1, totalCount = 2\<rparr> \<and>
   totalCount (getExpenseStats ledger_storage (Some ''2025-06-01'') (Some ''2025-06-01'')) =
     length [salary, lunch] \<and>
   getExpenseStats ledger_storage None (Some ''2025-06-01'') =
     \<lparr>totalIncome = 50000, totalExpense = 150, balance = 49850,
      incomeCount = 1, expenseCount = 1, totalCount = 2\<rparr> \<and>
   getExpenseStats ledger_storage (Some ''2025-06-02'') None =
     \<lparr>totalIncome = 0, totalExpense = 800, balance = - 800,
      incomeCount = 0, expenseCount = 1, totalCount = 1\<rparr>"
proof -
  have h: "supplied (Some ''2025-06-01'') ''2025-06-01''"
    by (simp add: supplied_def truthy_def)
  have kept: "filter (\<lambda>expense.
        (\<forall>s. supplied (Some ''2025-06-01'') s \<longrightarrow> js_le s (e_date expense)) \<and>
        (\<forall>t. supplied (Some ''2025-06-01'') t \<longrightarrow> js_le (e_date expense) t))
      (getAllExpenses ledger_storage) = [salary, lunch]"
    by (simp add: getAllExpenses_def loadExpenses_ledger_storage js_le_def supplied_def
        truthy_def salary_def lunch_def dinner_def)
  from stats_filter_sums_counts [where ls = ledger_storage and startDate = "Some ''2025-06-01''"
      and endDate = "Some ''2025-06-01''"]
  have "totalCount (getExpenseStats ledger_storage (Some ''2025-06-01'') (Some ''2025-06-01'')) =
      length [salary, lunch]"
    unfolding Let_def kept by blast
  moreover have "getExpenseStats ledger_storage (Some ''2025-06-01'') (Some ''2025-06-01'') =
     \<lparr>totalIncome = 50000, totalExpense = 150, balance = 49850,
      incomeCount = 1, expenseCount = 1, totalCount = 2\<rparr>"
    by (simp add: getExpenseStats_def Let_def truthy_def loadExpenses_ledger_storage
        salary_def lunch_def dinner_def)
  moreover have "getExpenseStats ledger_storage None (Some ''2025-06-01'') =
     \<lparr>totalIncome = 50000, totalExpense = 150, balance = 49850,
      incomeCount = 1, expenseCount = 1, totalCount = 2\<rparr>"
    by (simp add: getExpenseStats_def Let_def truthy_def loadExpenses_ledger_storage
        salary_def lunch_def dinner_def)
  moreover have "getExpenseStats ledger_storage (Some ''2025-06-02'') None =
     \<lparr>totalIncome = 0, totalExpense = 800, balance = - 800,
      incomeCount = 0, expenseCount = 1, totalCount = 1\<rparr>"
    by (simp add: getExpenseStats_def Let_def truthy_def loadExpenses_ledger_storage
        salary_def lunch_def dinner_def)
  ultimately show ?thesis
    using h by blast
qed

text \<open>
  Claim C10. For every stored todo sequence and optional date, the todo statistics have
  \<open>total = completed + pending\<close>, where among the records of that date (all records when
  no date is given) \<open>total\<close> counts all, \<open>completed\<close> those whose completion flag is true
  and \<open>pending\<close> those whose flag is false.
\<close>

theorem todo_stats_partition:
  "let todos = (if truthy date then filter (\<lambda>todo. Some (t_date todo) = date) (getAllTodos ls)
                else getAllTodos ls);
       r = getTodoStats ls date
   in ts_total r = ts_completed r + ts_pending r \<and>
      ts_total r = length todos \<and>
      ts_completed r = length (filter (\<lambda>todo. t_completed todo) todos) \<and>
      ts_pending r = length (filter (\<lambda>todo. \<not> t_completed todo) todos)"
proof -
  have "length (filter (\<lambda>todo. t_completed todo) xs) + length (filter (\<lambda>todo. \<not> t_completed todo) xs)
      = length xs" for xs :: "'a todo list"
    by (rule sum_length_filter_compl)
  then show ?thesis
    by (cases date) (simp_all add: getTodoStats_def Let_def getAllTodos_def truthy_def)
qed

theorem todo_stats_partition_witness:
  "getTodoStats todo_storage None =
     \<lparr>ts_total = 3, ts_completed = 1, ts_pending = 2, ts_high = 2, ts_medium = 0, ts_low = 1\<rparr> \<and>
   getTodoStats todo_storage (Some ''2025-06-01'') =
     \<lparr>ts_total = 2, ts_completed = 1, ts_pending = 1, ts_high = 2, ts_medium = 0, ts_low = 0\<rparr> \<and>
   ts_total (getTodoStats todo_storage None) =
     ts_completed (getTodoStats todo_storage None) + ts_pending (getTodoStats todo_storage None)"
proof -
  from todo_stats_partition [where date = None and ls = todo_storage]
  have "ts_total (getTodoStats todo_storage None) =
     ts_completed (getTodoStats todo_storage None) + ts_pending (getTodoStats todo_storage None)"
    unfolding Let_def by blast
  moreover have "getTodoStats todo_storage None =
     \<lparr>ts_total = 3, ts_completed = 1, ts_pending = 2, ts_high = 2, ts_medium = 0, ts_low = 1\<rparr>"
    by (simp add: getTodoStats_def Let_def truthy_def loadTodos_todo_storage
        report_def invoice_def groceries_def)
  moreover have "getTodoStats todo_storage (Some ''2025-06-01'') =
     \<lparr>ts_total = 2, ts_completed = 1, ts_pending = 1, ts_high = 2, ts_medium = 0, ts_low = 0\<rparr>"
    by (simp add: getTodoStats_def Let_def truthy_def loadTodos_todo_storage
        report_def invoice_def groceries_def)
  ultimately show ?thesis
    by blast
qed

lemma categoryStats_step_other:
  "e_category x \<noteq> c \<Longrightarrow> categoryStats_step m x c = m c"
  by (simp add: categoryStats_step_def Let_def)

lemma categoryStats_step_inherited:
  "c \<in> set Object_prototype_names \<Longrightarrow> categoryStats_step m x c = m c"
  by (cases "e_category x = c") (simp_all add: categoryStats_step_def Let_def)

lemma categoryStats_step_same:
  "e_category x \<notin> set Object_prototype_names \<Longrightarrow>
   categoryStats_step m x (e_category x) =
     Some (case m (e_category x) of
             None \<Rightarrow> \<lparr>c_count = 1, c_total = 0 + e_amount x, c_type = e_type x\<rparr>
           | Some s \<Rightarrow> s\<lparr>c_count := c_count s + 1, c_total := c_total s + e_amount x\<rparr>)"
  by (simp add: categoryStats_step_def Let_def split: option.split)

lemma foldl_categoryStats_step_inherited:
  "c \<in> set Object_prototype_names \<Longrightarrow> foldl categoryStats_step Map.empty xs c = None"
  by (induction xs rule: rev_induct) (simp_all add: categoryStats_step_inherited)

lemma foldl_categoryStats_step:
  fixes xs :: "('n::{zero,plus}) expense list"
  assumes own: "c \<notin> set Object_prototype_names"
  shows "foldl categoryStats_step Map.empty xs c =
     (if filter (\<lambda>e. e_category e = c) xs = [] then None
      else Some \<lparr>c_count = length (filter (\<lambda>e. e_category e = c) xs),
                 c_total = foldl (\<lambda>sum item. sum + e_amount item) 0
                             (filter (\<lambda>e. e_category e = c) xs),
                 c_type = e_type (hd (filter (\<lambda>e. e_category e = c) xs))\<rparr>)"
proof (induction xs rule: rev_induct)
  case Nil
  show ?case by simp
next
  case (snoc x xs)
  show ?case
  proof (cases "e_category x = c")
    case False
    with snoc show ?thesis
      by (simp add: categoryStats_step_other)
  next
    case True
    with own have "e_category x \<notin> set Object_prototype_names"
      by simp
    from categoryStats_step_same [OF this, of "foldl categoryStats_step Map.empty xs"] True snoc
    show ?thesis
      by simp
  qed
qed

text \<open>
  A category whose name is an inherited property never gets an entry.
\<close>

lemma getCategoryStats_inherited_name:
  "c \<in> set Object_prototype_names \<Longrightarrow> getCategoryStats ls type c = None"
  by (simp add: getCategoryStats_def Let_def foldl_categoryStats_step_inherited
      split: option.split)

text \<open>
  In exact arithmetic the balance of \<^verbatim>\<open>stats\<close> over the whole ledger is the signed total
  of its records, taken in any order.
\<close>

lemma signed_total_acc:
  fixes a :: "'n::ab_group_add"
  shows "foldl (\<lambda>acc e. if e_type e = ''income'' then acc + e_amount e
                     else if e_type e = ''expense'' then acc - e_amount e
                     else acc) a xs =
     a + sum_list (map e_amount (filter (\<lambda>e. e_type e = ''income'') xs))
       - sum_list (map e_amount (filter (\<lambda>e. e_type e = ''expense'') xs))"
  by (induction xs arbitrary: a) (simp_all add: algebra_simps)

lemma balance_signed_total_exact:
  fixes ls :: "('n::ab_group_add) expense list localStorage"
  shows "balance (getExpenseStats ls None None) = spec_signed_total (getAllExpenses ls)"
  by (simp add: getExpenseStats_def Let_def truthy_def spec_signed_total_def signed_total_acc
      foldl_add_sum_list getAllExpenses_def)

lemma loadExpenses_mixed_storage: "loadExpenses mixed_storage = [lunch, refund]"
  by (simp add: mixed_storage_def loadExpenses_def getItem_def JSON_stringify_def
      JSON_parse_def truthy_text_def)

lemma food_not_inherited: "''food'' \<notin> set Object_prototype_names"
  by (simp add: Object_prototype_names_def)

text \<open>
  Claim C3, as the code has it. The sign convention governs \<^verbatim>\<open>stats\<close>: over the whole
  ledger its balance is the sum of the amounts of the income records minus the sum of
  the amounts of the expense records. The totals of \<^verbatim>\<open>categoryStats\<close> are not signed: for
  a category whose name is not a property inherited from \<^verbatim>\<open>Object.prototype\<close>, the entry
  holds the number of the category's records (after the optional filter by type), the
  sum of their amounts, whatever their types, and the type of the first of them. Every
  sum is the code's own, the amounts added one by one from 0 in the order of the
  sequence, with no law of addition assumed.
\<close>

theorem category_totals_are_plain_sums:
  fixes ls :: "('n::{zero,plus,minus}) expense list localStorage"
  shows "balance (getExpenseStats ls None None) =
       foldl (\<lambda>sum item. sum + e_amount item) 0
         (filter (\<lambda>e. e_type e = ''income'') (getAllExpenses ls)) -
       foldl (\<lambda>sum item. sum + e_amount item) 0
         (filter (\<lambda>e. e_type e = ''expense'') (getAllExpenses ls)) \<and>
     (c \<notin> set Object_prototype_names \<longrightarrow>
      (let records = (if truthy type then filter (\<lambda>e. Some (e_type e) = type) (getAllExpenses ls)
                      else getAllExpenses ls);
           of_category = filter (\<lambda>e. e_category e = c) records
       in getCategoryStats ls type c =
            (if of_category = [] then None
             else Some \<lparr>c_count = length of_category,
                        c_total = foldl (\<lambda>sum item. sum + e_amount item) 0 of_category,
                        c_type = e_type (hd of_category)\<rparr>)))"
proof (intro conjI impI)
  show "balance (getExpenseStats ls None None) =
       foldl (\<lambda>sum item. sum + e_amount item) 0
         (filter (\<lambda>e. e_type e = ''income'') (getAllExpenses ls)) -
       foldl (\<lambda>sum item. sum + e_amount item) 0
         (filter (\<lambda>e. e_type e = ''expense'') (getAllExpenses ls))"
    by (simp add: getExpenseStats_def Let_def truthy_def getAllExpenses_def)
next
  assume own: "c \<notin> set Object_prototype_names"
  show "let records = (if truthy type then filter (\<lambda>e. Some (e_type e) = type) (getAllExpenses ls)
                      else getAllExpenses ls);
           of_category = filter (\<lambda>e. e_category e = c) records
       in getCategoryStats ls type c =
            (if of_category = [] then None
             else Some \<lparr>c_count = length of_category,
                        c_total = foldl (\<lambda>sum item. sum + e_amount item) 0 of_category,
                        c_type = e_type (hd of_category)\<rparr>)"
    by (cases type)
      (simp_all add: getCategoryStats_def Let_def getAllExpenses_def
        foldl_categoryStats_step [OF own] truthy_def)
qed

theorem category_totals_are_plain_sums_witness:
  "''food'' \<notin> set Object_prototype_names \<and>
   balance (getExpenseStats ledger_storage None None) = 50000 - 950 \<and>
   getCategoryStats ledger_storage None ''food'' =
     Some \<lparr>c_count = 2, c_total = 950, c_type = ''expense''\<rparr> \<and>
   getCategoryStats ledger_storage (Some ''income'') ''food'' = None \<and>
   getCategoryStats mixed_storage None ''food'' =
     Some \<lparr>c_count = 2, c_total = 250, c_type = ''expense''\<rparr>"
proof -
  note own = food_not_inherited
  from category_totals_are_plain_sums [where ls = ledger_storage and type = None and c = "''food''"]
  have "balance (getExpenseStats ledger_storage None None) = 50000 - 950"
    by (simp add: getAllExpenses_def loadExpenses_ledger_storage salary_def lunch_def dinner_def)
  moreover
  from own category_totals_are_plain_sums [where ls = ledger_storage and type = None
      and c = "''food''"]
  have "getCategoryStats ledger_storage None ''food'' =
     Some \<lparr>c_count = 2, c_total = 950, c_type = ''expense''\<rparr>"
    by (simp add: Let_def truthy_def getAllExpenses_def loadExpenses_ledger_storage
        salary_def lunch_def dinner_def)
  moreover
  from own category_totals_are_plain_sums [where ls = ledger_storage and type = "Some ''income''"
      and c = "''food''"]
  have "getCategoryStats ledger_storage (Some ''income'') ''food'' = None"
    by (simp add: Let_def truthy_def getAllExpenses_def loadExpenses_ledger_storage
        salary_def lunch_def dinner_def)
  moreover
  from own category_totals_are_plain_sums [where ls = mixed_storage and type = None
      and c = "''food''"]
  have "getCategoryStats mixed_storage None ''food'' =
     Some \<lparr>c_count = 2, c_total = 250, c_type = ''expense''\<rparr>"
    by (simp add: Let_def truthy_def getAllExpenses_def loadExpenses_mixed_storage
        lunch_def refund_def)
  ultimately show ?thesis
    using own by blast
qed

text \<open>
  Claim C3 as stated has the per-category totals follow the sign convention in a
  category that holds income and expense records. With a lunch of 150 (expense) and a
  refund of 100 (income) in the same category, \<^verbatim>\<open>categoryStats\<close> gives the total 250,
  where income minus expense is -50.
\<close>

theorem category_totals_signed_counterexample:
  "getAllExpenses mixed_storage = [lunch, refund] \<and>
   e_category lunch = ''food'' \<and> e_type lunch = ''expense'' \<and> e_amount lunch = 150 \<and>
   e_category refund = ''food'' \<and> e_type refund = ''income'' \<and> e_amount refund = 100 \<and>
   getCategoryStats mixed_storage None ''food'' =
     Some \<lparr>c_count = 2, c_total = 250, c_type = ''expense''\<rparr> \<and>
   spec_signed_total [lunch, refund] = - 50"
  by (simp add: getCategoryStats_def Let_def categoryStats_step_def getAllExpenses_def
      loadExpenses_mixed_storage spec_signed_total_def lunch_def refund_def
      Object_prototype_names_def)

declare digits.simps [simp del]

lemma digits_small: "n < 10 \<Longrightarrow> digits n = [digit n]"
  by (simp add: digits.simps)

lemma digits_step: "10 \<le> n \<Longrightarrow> digits n = digits (n div 10) @ [digit (n mod 10)]"
  by (subst digits.simps) simp

lemma digits_four:
  assumes "1000 \<le> n" "n \<le> 9999"
  shows "digits n = [digit (n div 1000), digit (n div 100 mod 10), digit (n div 10 mod 10), digit (n mod 10)]"
proof -
  have e: "n div 10 div 10 = n div 100" "n div 100 div 10 = n div 1000"
    by (simp_all add: div_mult2_eq [symmetric])
  have "digits (n div 1000) = [digit (n div 1000)]"
    using assms by (intro digits_small) simp
  moreover have "digits (n div 100) = digits (n div 1000) @ [digit (n div 100 mod 10)]"
    using assms digits_step [of "n div 100"] by (simp add: e)
  moreover have "digits (n div 10) = digits (n div 100) @ [digit (n div 10 mod 10)]"
    using assms digits_step [of "n div 10"] by (simp add: e)
  moreover have "digits n = digits (n div 10) @ [digit (n mod 10)]"
    using assms by (intro digits_step) simp
  ultimately show ?thesis
    by simp
qed

lemma nat_of_int_eq: "i = int k \<Longrightarrow> nat i = k"
  by simp

lemma toString_four_digits:
  assumes "1000 \<le> y" "y \<le> 9999"
  shows "toString y = four_digits y"
proof -
  define n where "n = nat y"
  have n: "y = int n" "1000 \<le> n" "n \<le> 9999"
    using assms by (simp_all add: n_def)
  have e: "n div 100 div 10 mod 10 = n div 1000"
    using n by (simp add: div_mult2_eq [symmetric])
  have d1: "nat (int n div 100 div 10 mod 10) = n div 100 div 10 mod 10"
    by (rule nat_of_int_eq) (simp add: zdiv_int zmod_int)
  have d2: "nat (int n div 100 mod 10) = n div 100 mod 10"
    by (rule nat_of_int_eq) (simp add: zdiv_int zmod_int)
  have d3: "nat (int n div 10 mod 10) = n div 10 mod 10"
    by (rule nat_of_int_eq) (simp add: zdiv_int zmod_int)
  have d4: "nat (int n mod 10) = n mod 10"
    by (rule nat_of_int_eq) (simp add: zdiv_int zmod_int)
  have "toString y = digits n"
    using n by (simp add: toString_def)
  also have "\<dots> = [digit (n div 1000), digit (n div 100 mod 10), digit (n div 10 mod 10), digit (n mod 10)]"
    using n by (intro digits_four) simp_all
  also have "\<dots> = four_digits (int n)"
    unfolding four_digits_def two_digits_def d1 d2 d3 d4 e by simp
  finally show ?thesis
    by (simp add: n)
qed

lemma isLeapYear_spec_leap: "isLeapYear y = spec_leap y"
  unfolding isLeapYear_def spec_leap_def by presburger

lemma month_cases:
  assumes "1 \<le> m" "m \<le> 12"
  shows "m = 1 \<or> m = 2 \<or> m = 3 \<or> m = 4 \<or> m = 5 \<or> m = 6 \<or> m = 7 \<or> m = 8 \<or> m = 9 \<or> m = 10
     \<or> m = 11 \<or> m = (12::int)"
  using assms by arith

lemma Date_day0_getDate_month:
  assumes "100 \<le> y" "1 \<le> m" "m \<le> 12"
  shows "Date_day0_getDate y m = spec_monthLength y m"
  using month_cases [OF assms(2,3)] assms(1)
  by (elim disjE)
    (simp_all add: Date_day0_getDate_def Let_def daysInMonth_def spec_monthLength_def
      isLeapYear_spec_leap)

lemma month_two_digits:
  assumes "1 \<le> m" "m \<le> 12"
  shows "padStart (toString m) 2 (CHR ''0'') = two_digits m"
  using month_cases [OF assms]
  by (elim disjE)
    (simp_all add: padStart_def toString_def two_digits_def digits.simps digit_def)

lemma day_two_digits:
  assumes "1 \<le> m" "m \<le> 12"
  shows "padStart (toString (spec_monthLength y m)) 2 (CHR ''0'') = two_digits (spec_monthLength y m)"
proof -
  have "spec_monthLength y m = 28 \<or> spec_monthLength y m = 29 \<or> spec_monthLength y m = 30
      \<or> spec_monthLength y m = 31"
    by (simp add: spec_monthLength_def)
  then show ?thesis
    by (elim disjE)
      (simp_all add: padStart_def toString_def two_digits_def digits.simps digit_def)
qed

text \<open>
  Claim C4. For every year \<open>y\<close> (of four digits, as the dates \<^verbatim>\<open>YYYY-MM-DD\<close> have) and
  every month \<open>m\<close> (from 1 to 12), \<^verbatim>\<open>monthlyStats(y, m)\<close> is \<^verbatim>\<open>stats\<close> of the month's first and
  last calendar day. The last day has the month's length, with 29 days for February in
  a leap year and 28 otherwise: the code's last day of February is 29 in 2024 and 28 in
  2023, and the dates are 2024-02-29 and 2023-02-28.
\<close>

theorem monthlyStats_is_stats_of_month:
  assumes "1000 \<le> y" "y \<le> 9999" "1 \<le> m" "m \<le> 12"
  shows "getMonthlyStats now ls (Some y) (Some m) =
           getExpenseStats ls (Some (firstDayOf y m)) (Some (lastDayOf y m)) \<and>
         Date_day0_getDate 2024 2 = 29 \<and> lastDayOf 2024 2 = ''2024-02-29'' \<and>
         Date_day0_getDate 2023 2 = 28 \<and> lastDayOf 2023 2 = ''2023-02-28''"
proof -
  from assms have nz: "y \<noteq> 0" "m \<noteq> 0"
    by simp_all
  from assms have day: "Date_day0_getDate y m = spec_monthLength y m"
    by (intro Date_day0_getDate_month) simp_all
  have "getMonthlyStats now ls (Some y) (Some m) =
           getExpenseStats ls (Some (firstDayOf y m)) (Some (lastDayOf y m))"
    using nz
    by (simp add: getMonthlyStats_def Let_def or_current_def day firstDayOf_def lastDayOf_def
        iso_date_def toString_four_digits [OF assms(1,2)] month_two_digits [OF assms(3,4)]
        day_two_digits [OF assms(3,4)])
      (simp add: two_digits_def digit_def)
  moreover have "lastDayOf 2024 2 = ''2024-02-29''" "lastDayOf 2023 2 = ''2023-02-28''"
    by (simp_all add: lastDayOf_def iso_date_def spec_monthLength_def spec_leap_def
        four_digits_def two_digits_def digit_def)
  moreover have "Date_day0_getDate 2024 2 = 29" "Date_day0_getDate 2023 2 = 28"
    by (simp_all add: Date_day0_getDate_def Let_def daysInMonth_def isLeapYear_def)
  ultimately show ?thesis
    by simp
qed

theorem monthlyStats_is_stats_of_month_witness:
  "(1000::int) \<le> 2025 \<and> (2025::int) \<le> 9999 \<and> (1::int) \<le> 6 \<and> (6::int) \<le> 12 \<and>
   firstDayOf 2025 6 = ''2025-06-01'' \<and> lastDayOf 2025 6 = ''2025-06-30'' \<and>
   getMonthlyStats june_3 ledger_storage (Some 2025) (Some 6) =
     \<lparr>totalIncome = 50000, totalExpense = 950, balance = 49050,
      incomeCount = 1, expenseCount = 2, totalCount = 3\<rparr> \<and>
   getMonthlyStats june_3 ledger_storage (Some 2024) (Some 2) =
     getExpenseStats ledger_storage (Some ''2024-02-01'') (Some ''2024-02-29'')"
proof -
  have first: "firstDayOf 2025 6 = ''2025-06-01''" "firstDayOf 2024 2 = ''2024-02-01''"
    by (simp_all add: firstDayOf_def iso_date_def four_digits_def two_digits_def digit_def)
  have last: "lastDayOf 2025 6 = ''2025-06-30''"
    by (simp add: lastDayOf_def iso_date_def spec_monthLength_def
        four_digits_def two_digits_def digit_def)
  have june: "getExpenseStats ledger_storage (Some ''2025-06-01'') (Some ''2025-06-30'') =
     \<lparr>totalIncome = 50000, totalExpense = 950, balance = 49050,
      incomeCount = 1, expenseCount = 2, totalCount = 3\<rparr>"
    by (simp add: getExpenseStats_def Let_def truthy_def loadExpenses_ledger_storage
        salary_def lunch_def dinner_def)
  from monthlyStats_is_stats_of_month [of 2025 6 june_3 ledger_storage]
  have "getMonthlyStats june_3 ledger_storage (Some 2025) (Some 6) =
     \<lparr>totalIncome = 50000, totalExpense = 950, balance = 49050,
      incomeCount = 1, expenseCount = 2, totalCount = 3\<rparr>"
    by (simp add: first last june)
  moreover from monthlyStats_is_stats_of_month [of 2024 2 june_3 ledger_storage]
  have "getMonthlyStats june_3 ledger_storage (Some 2024) (Some 2) =
     getExpenseStats ledger_storage (Some ''2024-02-01'') (Some ''2024-02-29'')"
    by (simp add: first)
  ultimately show ?thesis
    using first last by simp
qed

section \<open>Writing and reading back\<close>

lemma storage_set_accepts:
  "storage_set ls key S =
     (if accepts ls key (JSON_stringify S)
      then (ls\<lparr>items := (items ls)(key \<mapsto> JSON_stringify S)\<rparr>, True)
      else (ls, False))"
  by (simp add: storage_set_def setItem_def)

lemma storage_get_written:
  "storage_get (ls\<lparr>items := (items ls)(key \<mapsto> JSON_stringify S)\<rparr>) key = S"
  by (simp add: storage_get_def getItem_def JSON_stringify_def JSON_parse_def truthy_text_def)

text \<open>
  Claim C8, as the code has it. Whenever \<^verbatim>\<open>write(key, S)\<close> returns true, which it does
  exactly when the browser accepts the text, \<^verbatim>\<open>read(key)\<close> afterwards returns \<open>S\<close>; when
  it returns false the storage is as it was. This holds for the storage module's
  \<^verbatim>\<open>set\<close> and \<^verbatim>\<open>get\<close> and for the save and load functions of both services.
\<close>

theorem accepted_write_reads_equal:
  "snd (storage_set ls key S) = accepts ls key (JSON_stringify S) \<and>
   (snd (storage_set ls key S) \<longrightarrow> storage_get (fst (storage_set ls key S)) key = S) \<and>
   (\<not> snd (storage_set ls key S) \<longrightarrow> fst (storage_set ls key S) = ls) \<and>
   snd (saveExpenses els xs) = accepts els EXPENSES_STORAGE_KEY (JSON_stringify xs) \<and>
   (snd (saveExpenses els xs) \<longrightarrow> loadExpenses (fst (saveExpenses els xs)) = xs) \<and>
   (\<not> snd (saveExpenses els xs) \<longrightarrow> fst (saveExpenses els xs) = els) \<and>
   snd (saveTodos tls ts) = accepts tls TODOS_STORAGE_KEY (JSON_stringify ts) \<and>
   (snd (saveTodos tls ts) \<longrightarrow> loadTodos (fst (saveTodos tls ts)) = ts) \<and>
   (\<not> snd (saveTodos tls ts) \<longrightarrow> fst (saveTodos tls ts) = tls)"
  by (simp add: storage_set_accepts storage_get_written saveExpenses_accepts
      loadExpenses_written saveTodos_accepts loadTodos_written)

theorem accepted_write_reads_equal_witness:
  "snd (storage_set fresh_storage STORAGE_KEYS_EXPENSES (Array [salary, lunch])) \<and>
   storage_get (fst (storage_set fresh_storage STORAGE_KEYS_EXPENSES (Array [salary, lunch])))
     STORAGE_KEYS_EXPENSES = Array [salary, lunch] \<and>
   snd (saveExpenses ledger_storage [dinner]) \<and>
   loadExpenses (fst (saveExpenses ledger_storage [dinner])) = [dinner] \<and>
   snd (saveTodos todo_storage []) \<and>
   loadTodos (fst (saveTodos todo_storage [])) = [] \<and>
   \<not> snd (saveTodos full_todo_storage []) \<and>
   fst (saveTodos full_todo_storage []) = full_todo_storage"
proof -
  have a: "accepts fresh_storage STORAGE_KEYS_EXPENSES (JSON_stringify (Array [salary, lunch]))"
    "accepts ledger_storage EXPENSES_STORAGE_KEY (JSON_stringify [dinner])"
    "accepts todo_storage TODOS_STORAGE_KEY (JSON_stringify [])"
    "\<not> accepts full_todo_storage TODOS_STORAGE_KEY (JSON_stringify [])"
    by (simp_all add: fresh_storage_def sample_storages_accept JSON_stringify_def)
  from a accepted_write_reads_equal [of fresh_storage STORAGE_KEYS_EXPENSES "Array [salary, lunch]"
      ledger_storage "[dinner]" todo_storage "[]"]
    accepted_write_reads_equal [of fresh_storage STORAGE_KEYS_EXPENSES "Array [salary, lunch]"
      ledger_storage "[dinner]" full_todo_storage "[]"]
  show ?thesis
    by simp
qed

text \<open>
  Claim C8 as stated has the read return \<open>S\<close> after every write. In a storage that
  takes no write, reading an empty key after writing one record gives the empty
  sequence; and in the full storage, the ledger read after saving a ledger with one
  record more is the old ledger.
\<close>

theorem refused_write_reads_old_counterexample:
  "storage_get (fst (storage_set dead_storage STORAGE_KEYS_EXPENSES (Array [salary])))
     STORAGE_KEYS_EXPENSES = Array [] \<and>
   loadExpenses (fst (saveExpenses full_ledger_storage [salary, lunch, dinner, coffee_record])) =
     [salary, lunch, dinner]"
  by (simp add: storage_set_accepts saveExpenses_accepts loadExpenses_full_ledger_storage
      sample_storages_accept JSON_stringify_def)
    (simp add: dead_storage_def storage_get_def getItem_def JSON_stringify_def JSON_parse_def)

section \<open>Initialization\<close>

lemma keys_distinct:
  "distinct [STORAGE_KEYS_SETTINGS, STORAGE_KEYS_TODOS, STORAGE_KEYS_EXPENSES,
     STORAGE_KEYS_BUDGETS, STORAGE_KEYS_TEMPLATES]"
  by (simp add: STORAGE_KEYS_SETTINGS_def STORAGE_KEYS_TODOS_def STORAGE_KEYS_EXPENSES_def
      STORAGE_KEYS_BUDGETS_def STORAGE_KEYS_TEMPLATES_def)

lemma initializeData_present:
  "truthy_text (getItem ls STORAGE_KEYS_SETTINGS) \<Longrightarrow> initializeData now ls = Inr ls"
  by (simp add: initializeData_def)

lemma initializeData_fresh:
  assumes absent: "\<not> truthy_text (getItem ls STORAGE_KEYS_SETTINGS)"
    and s: "accepts ls STORAGE_KEYS_SETTINGS (JSON_stringify (Object
        \<lparr>initialized = True, version = ''2.0'', currency = ''TWD'',
         created_at = Date_toISOString now\<rparr>))"
    and a: "\<forall>key \<in> {STORAGE_KEYS_TODOS, STORAGE_KEYS_EXPENSES, STORAGE_KEYS_BUDGETS,
        STORAGE_KEYS_TEMPLATES}. accepts ls key (JSON_stringify (Array []))"
  shows "initializeData now ls = Inr (ls\<lparr>items := (items ls)
      (STORAGE_KEYS_SETTINGS \<mapsto> JSON_stringify (Object
        \<lparr>initialized = True, version = ''2.0'', currency = ''TWD'',
         created_at = Date_toISOString now\<rparr>),
       STORAGE_KEYS_TODOS \<mapsto> JSON_stringify (Array []),
       STORAGE_KEYS_EXPENSES \<mapsto> JSON_stringify (Array []),
       STORAGE_KEYS_BUDGETS \<mapsto> JSON_stringify (Array []),
       STORAGE_KEYS_TEMPLATES \<mapsto> JSON_stringify (Array []))\<rparr>)"
  using assms
  by (simp add: initializeData_def Let_def setItem_def storage_set_accepts getCurrentTimestamp_def)

text \<open>
  Claim C9, as the code has it. When a settings text is present (and not empty),
  \<^verbatim>\<open>initializeData\<close> changes nothing. When it is absent and the browser accepts the five
  writes, \<^verbatim>\<open>initializeData\<close> stores a settings record with the initialized mark, version
  2.0, currency TWD and the current timestamp, and an empty sequence under each of the
  four record keys; it touches no other key; and a second call then changes nothing, so
  the transition happens once.
\<close>

theorem initializeData_once:
  "(truthy_text (getItem ls STORAGE_KEYS_SETTINGS) \<longrightarrow> initializeData now ls = Inr ls) \<and>
   (\<not> truthy_text (getItem ls STORAGE_KEYS_SETTINGS) \<and>
    accepts ls STORAGE_KEYS_SETTINGS (JSON_stringify (Object
        \<lparr>initialized = True, version = ''2.0'', currency = ''TWD'',
         created_at = Date_toISOString now\<rparr>)) \<and>
    (\<forall>key \<in> {STORAGE_KEYS_TODOS, STORAGE_KEYS_EXPENSES, STORAGE_KEYS_BUDGETS,
        STORAGE_KEYS_TEMPLATES}. accepts ls key (JSON_stringify (Array []))) \<longrightarrow>
    (\<exists>ls'. initializeData now ls = Inr ls' \<and>
       getItem ls' STORAGE_KEYS_SETTINGS = Some (JSON_stringify (Object
        \<lparr>initialized = True, version = ''2.0'', currency = ''TWD'',
         created_at = Date_toISOString now\<rparr>)) \<and>
       (\<forall>key \<in> {STORAGE_KEYS_TODOS, STORAGE_KEYS_EXPENSES, STORAGE_KEYS_BUDGETS,
          STORAGE_KEYS_TEMPLATES}.
            getItem ls' key = Some (JSON_stringify (Array [])) \<and> storage_get ls' key = Array []) \<and>
       (\<forall>key. key \<notin> {STORAGE_KEYS_SETTINGS, STORAGE_KEYS_TODOS, STORAGE_KEYS_EXPENSES,
          STORAGE_KEYS_BUDGETS, STORAGE_KEYS_TEMPLATES} \<longrightarrow> getItem ls' key = getItem ls key) \<and>
       initializeData now' ls' = Inr ls'))"
proof (intro conjI impI)
  assume "truthy_text (getItem ls STORAGE_KEYS_SETTINGS)"
  then show "initializeData now ls = Inr ls"
    by (rule initializeData_present)
next
  let ?settings = "JSON_stringify (Object
        \<lparr>initialized = True, version = ''2.0'', currency = ''TWD'',
         created_at = Date_toISOString now\<rparr>)"
  let ?ls' = "ls\<lparr>items := (items ls)
      (STORAGE_KEYS_SETTINGS \<mapsto> ?settings,
       STORAGE_KEYS_TODOS \<mapsto> JSON_stringify (Array []),
       STORAGE_KEYS_EXPENSES \<mapsto> JSON_stringify (Array []),
       STORAGE_KEYS_BUDGETS \<mapsto> JSON_stringify (Array []),
       STORAGE_KEYS_TEMPLATES \<mapsto> JSON_stringify (Array []))\<rparr>"
  assume h: "\<not> truthy_text (getItem ls STORAGE_KEYS_SETTINGS) \<and>
    accepts ls STORAGE_KEYS_SETTINGS ?settings \<and>
    (\<forall>key \<in> {STORAGE_KEYS_TODOS, STORAGE_KEYS_EXPENSES, STORAGE_KEYS_BUDGETS,
        STORAGE_KEYS_TEMPLATES}. accepts ls key (JSON_stringify (Array [])))"
  then have init: "initializeData now ls = Inr ?ls'"
    by (intro initializeData_fresh) simp_all
  have settings: "getItem ?ls' STORAGE_KEYS_SETTINGS = Some ?settings"
    using keys_distinct by (simp add: getItem_def)
  have arrays: "\<forall>key \<in> {STORAGE_KEYS_TODOS, STORAGE_KEYS_EXPENSES, STORAGE_KEYS_BUDGETS,
          STORAGE_KEYS_TEMPLATES}.
            getItem ?ls' key = Some (JSON_stringify (Array [])) \<and> storage_get ?ls' key = Array []"
    using keys_distinct
    by (simp add: getItem_def storage_get_def JSON_stringify_def JSON_parse_def truthy_text_def)
  have others: "\<forall>key. key \<notin> {STORAGE_KEYS_SETTINGS, STORAGE_KEYS_TODOS, STORAGE_KEYS_EXPENSES,
          STORAGE_KEYS_BUDGETS, STORAGE_KEYS_TEMPLATES} \<longrightarrow> getItem ?ls' key = getItem ls key"
    by (simp add: getItem_def)
  have "truthy_text (getItem ?ls' STORAGE_KEYS_SETTINGS)"
    unfolding settings by (simp add: truthy_text_def JSON_stringify_def)
  then have again: "initializeData now' ?ls' = Inr ?ls'"
    by (rule initializeData_present)
  show "\<exists>ls'. initializeData now ls = Inr ls' \<and>
       getItem ls' STORAGE_KEYS_SETTINGS = Some ?settings \<and>
       (\<forall>key \<in> {STORAGE_KEYS_TODOS, STORAGE_KEYS_EXPENSES, STORAGE_KEYS_BUDGETS,
          STORAGE_KEYS_TEMPLATES}.
            getItem ls' key = Some (JSON_stringify (Array [])) \<and> storage_get ls' key = Array []) \<and>
       (\<forall>key. key \<notin> {STORAGE_KEYS_SETTINGS, STORAGE_KEYS_TODOS, STORAGE_KEYS_EXPENSES,
          STORAGE_KEYS_BUDGETS, STORAGE_KEYS_TEMPLATES} \<longrightarrow> getItem ls' key = getItem ls key) \<and>
       initializeData now' ls' = Inr ls'"
    using init settings arrays others again by (intro exI [of _ ?ls']) (intro conjI)
qed

theorem initializeData_once_witness:
  "\<not> truthy_text (getItem fresh_storage STORAGE_KEYS_SETTINGS) \<and>
   initializeData june_3 fresh_storage = Inr initialized_storage \<and>
   getItem initialized_storage STORAGE_KEYS_SETTINGS = Some (JSON_stringify (Object default_settings)) \<and>
   storage_get initialized_storage STORAGE_KEYS_TODOS = Array [] \<and>
   storage_get initialized_storage STORAGE_KEYS_EXPENSES = Array [] \<and>
   storage_get initialized_storage STORAGE_KEYS_BUDGETS = Array [] \<and>
   storage_get initialized_storage STORAGE_KEYS_TEMPLATES = Array [] \<and>
   truthy_text (getItem initialized_storage STORAGE_KEYS_SETTINGS) \<and>
   initializeData june_3 initialized_storage = Inr initialized_storage"
proof -
  have absent: "\<not> truthy_text (getItem fresh_storage STORAGE_KEYS_SETTINGS)"
    by (simp add: fresh_storage_def getItem_def truthy_text_def)
  have accepted: "accepts fresh_storage key t" for key t
    by (simp add: fresh_storage_def)
  have first: "initializeData june_3 fresh_storage = Inr initialized_storage"
    using absent
    by (simp add: initializeData_def Let_def setItem_def storage_set_accepts
        getCurrentTimestamp_def initialized_storage_def default_settings_def june_3_def accepted)
      (simp add: fresh_storage_def)
  from initializeData_once [of fresh_storage june_3 june_3] absent accepted first
  have after: "getItem initialized_storage STORAGE_KEYS_SETTINGS =
        Some (JSON_stringify (Object default_settings)) \<and>
      (\<forall>key \<in> {STORAGE_KEYS_TODOS, STORAGE_KEYS_EXPENSES, STORAGE_KEYS_BUDGETS,
          STORAGE_KEYS_TEMPLATES}. storage_get initialized_storage key = Array []) \<and>
      initializeData june_3 initialized_storage = Inr initialized_storage"
    by (auto simp: default_settings_def june_3_def)
  then have "truthy_text (getItem initialized_storage STORAGE_KEYS_SETTINGS)"
    by (simp add: truthy_text_def JSON_stringify_def)
  with absent first after show ?thesis
    by simp
qed

text \<open>
  Claim C9 as stated has \<^verbatim>\<open>initialize\<close> create the initial state whenever the settings
  record is absent. In an empty storage that refuses writes, the settings write throws
  outside any \<^verbatim>\<open>try\<close> and nothing is created.
\<close>

theorem refused_write_no_initial_state_counterexample:
  "getItem dead_storage STORAGE_KEYS_SETTINGS = None \<and>
   initializeData june_3 dead_storage = Inl QuotaExceededError"
  by (simp add: initializeData_def Let_def setItem_def getItem_def truthy_text_def
      dead_storage_def)

end
